theory Spec2Isabelle
  imports Complex_Main
begin

section \<open>JavaScript numbers\<close>

text \<open>
  The five functions of \<open>bank-functions.js\<close> compute with JavaScript values that are
  numbers, or \<open>undefined\<close> where the caller leaves an argument out. A number is an IEEE-754
  double, and IEEE-754 defines every operation as the exact result, rounded to the nearest
  double. The theory has the two steps as two layers. The first layer, the type \<open>jsval\<close>
  with its operators, has every special value of the doubles and the rules of the language
  for them (\<open>NaN\<close>, the two infinities, the negative zero, division by zero, \<open>Math.pow\<close> at
  its special arguments) and the exact real result on finite operands: \<open>Fin r\<close> is the
  number whose value is the real \<open>r\<close>, with \<open>Fin 0\<close> the positive zero. The second layer,
  the type \<open>double\<close>, rounds each result of the first, with overflow to an infinity and
  underflow to a zero. The functions of the source are embedded over both layers, with the
  same text: over \<open>jsval\<close>, where finite arithmetic is exact, and over \<open>double\<close>, where it
  is rounded as the language rounds it.
\<close>

datatype jsval = Fin real | NegZero | PInf | NInf | NaN | Undefined

text \<open>\<open>ToNumber\<close>: \<open>undefined\<close> becomes \<open>NaN\<close> in every arithmetic operator.\<close>

fun to_number :: "jsval \<Rightarrow> jsval" where
  "to_number Undefined = NaN"
| "to_number x = x"

fun is_zero :: "jsval \<Rightarrow> bool" where
  "is_zero (Fin r) = (r = 0)"
| "is_zero NegZero = True"
| "is_zero _ = False"

fun is_inf :: "jsval \<Rightarrow> bool" where
  "is_inf PInf = True"
| "is_inf NInf = True"
| "is_inf _ = False"

fun is_nan :: "jsval \<Rightarrow> bool" where
  "is_nan NaN = True"
| "is_nan Undefined = True"
| "is_nan _ = False"

text \<open>The sign bit of a number: set for negative values, \<open>-0\<close> and \<open>-Infinity\<close>.\<close>

fun sign_bit :: "jsval \<Rightarrow> bool" where
  "sign_bit (Fin r) = (r < 0)"
| "sign_bit NegZero = True"
| "sign_bit NInf = True"
| "sign_bit _ = False"

text \<open>The real value of a finite number (both zeros have value 0).\<close>

fun val :: "jsval \<Rightarrow> real" where
  "val (Fin r) = r"
| "val _ = 0"

fun is_finite :: "jsval \<Rightarrow> bool" where
  "is_finite (Fin r) = True"
| "is_finite NegZero = True"
| "is_finite _ = False"

text \<open>The numbers that are not finite: \<open>Infinity\<close>, \<open>-Infinity\<close> and \<open>NaN\<close>.\<close>

fun non_finite :: "jsval \<Rightarrow> bool" where
  "non_finite PInf = True"
| "non_finite NInf = True"
| "non_finite NaN = True"
| "non_finite _ = False"

definition zero_of :: "bool \<Rightarrow> jsval" where
  "zero_of negative = (if negative then NegZero else Fin 0)"

definition inf_of :: "bool \<Rightarrow> jsval" where
  "inf_of negative = (if negative then NInf else PInf)"

definition sign_xor :: "jsval \<Rightarrow> jsval \<Rightarrow> bool" where
  "sign_xor a b = (if sign_bit a then (if sign_bit b then False else True) else sign_bit b)"

subsection \<open>The arithmetic operators\<close>

text \<open>
  \<open>a + b\<close>: \<open>NaN\<close> is absorbing, opposite infinities give \<open>NaN\<close>, an infinity absorbs a
  finite number, and a sum that is zero is \<open>+0\<close> unless both operands are \<open>-0\<close>.
\<close>

instantiation jsval :: plus
begin

fun plus_jsval :: "jsval \<Rightarrow> jsval \<Rightarrow> jsval" where
  "Fin a + Fin b = Fin (a + b)"
| "Fin a + NegZero = Fin a"
| "NegZero + Fin b = Fin b"
| "NegZero + NegZero = NegZero"
| "NaN + _ = NaN"
| "_ + NaN = NaN"
| "Undefined + _ = NaN"
| "_ + Undefined = NaN"
| "PInf + NInf = NaN"
| "NInf + PInf = NaN"
| "PInf + _ = PInf"
| "_ + PInf = PInf"
| "NInf + _ = NInf"
| "_ + NInf = NInf"

instance ..

end

text \<open>Unary minus flips the sign bit, of zeros and infinities too.\<close>

instantiation jsval :: uminus
begin

fun uminus_jsval :: "jsval \<Rightarrow> jsval" where
  "- Fin r = (if r = 0 then NegZero else Fin (- r))"
| "- NegZero = Fin 0"
| "- PInf = NInf"
| "- NInf = PInf"
| "- NaN = NaN"
| "- Undefined = NaN"

instance ..

end

text \<open>\<open>a - b\<close> is \<open>a + (-b)\<close> in IEEE-754 arithmetic, signs of zero included.\<close>

instantiation jsval :: minus
begin

definition minus_jsval :: "jsval \<Rightarrow> jsval \<Rightarrow> jsval" where
  "(a::jsval) - b = a + (- b)"

instance ..

end

text \<open>
  \<open>a * b\<close>: \<open>0 * Infinity\<close> is \<open>NaN\<close>; otherwise the sign of the result is the exclusive
  or of the operands' signs, for zeros and infinities as well.
\<close>

instantiation jsval :: times
begin

definition times_jsval :: "jsval \<Rightarrow> jsval \<Rightarrow> jsval" where
  "(x::jsval) * y =
     (let a = to_number x; b = to_number y in
      if is_nan a \<or> is_nan b then NaN
      else if (is_zero a \<and> is_inf b) \<or> (is_inf a \<and> is_zero b) then NaN
      else if is_inf a \<or> is_inf b then inf_of (sign_xor a b)
      else if is_zero a \<or> is_zero b then zero_of (sign_xor a b)
      else Fin (val a * val b))"

instance ..

end

text \<open>
  \<open>a / b\<close> never throws: \<open>0 / 0\<close> and \<open>Infinity / Infinity\<close> are \<open>NaN\<close>, any other
  division by a zero is an infinity, and a finite number over an infinity is a zero.
\<close>

instantiation jsval :: inverse
begin

definition divide_jsval :: "jsval \<Rightarrow> jsval \<Rightarrow> jsval" where
  "divide x y =
     (let a = to_number x; b = to_number y in
      if is_nan a \<or> is_nan b then NaN
      else if (is_zero a \<and> is_zero b) \<or> (is_inf a \<and> is_inf b) then NaN
      else if is_inf a \<or> is_zero b then inf_of (sign_xor a b)
      else if is_inf b \<or> is_zero a then zero_of (sign_xor a b)
      else Fin (val a / val b))"

definition inverse_jsval :: "jsval \<Rightarrow> jsval" where
  "inverse_jsval y = divide (Fin 1) y"

instance ..

end

subsection \<open>Comparison and defaulting\<close>

text \<open>
  \<open>a === b\<close> on numbers and \<open>undefined\<close>: \<open>NaN\<close> equals nothing, not even itself, and the
  two zeros are equal.
\<close>

fun strict_eq :: "jsval \<Rightarrow> jsval \<Rightarrow> bool" where
  "strict_eq Undefined Undefined = True"
| "strict_eq Undefined _ = False"
| "strict_eq _ Undefined = False"
| "strict_eq NaN _ = False"
| "strict_eq _ NaN = False"
| "strict_eq (Fin a) (Fin b) = (a = b)"
| "strict_eq (Fin a) NegZero = (a = 0)"
| "strict_eq NegZero (Fin b) = (b = 0)"
| "strict_eq NegZero NegZero = True"
| "strict_eq PInf PInf = True"
| "strict_eq NInf NInf = True"
| "strict_eq _ _ = False"

text \<open>\<open>ToBoolean\<close>: the falsy values are \<open>undefined\<close>, \<open>NaN\<close>, \<open>+0\<close> and \<open>-0\<close>.\<close>

fun truthy :: "jsval \<Rightarrow> bool" where
  "truthy (Fin r) = (if r = 0 then False else True)"
| "truthy PInf = True"
| "truthy NInf = True"
| "truthy _ = False"

text \<open>\<open>x || d\<close> is \<open>x\<close> when \<open>x\<close> is truthy and \<open>d\<close> otherwise.\<close>

definition or_default :: "jsval \<Rightarrow> jsval \<Rightarrow> jsval" where
  "or_default x d = (if truthy x then x else d)"

subsection \<open>\<open>Math.pow\<close>\<close>

text \<open>
  \<open>Math.pow(base, exponent)\<close> follows the case list of ECMAScript's
  \<open>Number::exponentiate\<close>, in its order. For a finite non-zero base and a finite non-zero
  exponent the model returns the exact real power (the language asks for an
  approximation of it).
\<close>

definition integral :: "jsval \<Rightarrow> bool" where
  "integral e = (case e of Fin r \<Rightarrow> real_of_int \<lfloor>r\<rfloor> = r | NegZero \<Rightarrow> True | _ \<Rightarrow> False)"

definition odd_integer :: "jsval \<Rightarrow> bool" where
  "odd_integer e = (case e of Fin r \<Rightarrow> real_of_int \<lfloor>r\<rfloor> = r \<and> odd \<lfloor>r\<rfloor> | _ \<Rightarrow> False)"

definition real_pow :: "real \<Rightarrow> real \<Rightarrow> real" where
  "real_pow b e = (if real_of_int \<lfloor>e\<rfloor> = e then b powi \<lfloor>e\<rfloor> else b powr e)"

definition js_pow :: "jsval \<Rightarrow> jsval \<Rightarrow> jsval" where
  "js_pow x y =
     (let b = to_number x; e = to_number y in
      if is_nan e then NaN
      else if is_zero e then Fin 1
      else if is_nan b then NaN
      else if b = PInf then (if sign_bit e then Fin 0 else PInf)
      else if b = NInf then
        (if sign_bit e then (if odd_integer e then NegZero else Fin 0)
         else (if odd_integer e then NInf else PInf))
      else if b = Fin 0 then (if sign_bit e then PInf else Fin 0)
      else if b = NegZero then
        (if sign_bit e then (if odd_integer e then NInf else PInf)
         else (if odd_integer e then NegZero else Fin 0))
      else if e = PInf then
        (if 1 < \<bar>val b\<bar> then PInf else if \<bar>val b\<bar> = 1 then NaN else Fin 0)
      else if e = NInf then
        (if 1 < \<bar>val b\<bar> then Fin 0 else if \<bar>val b\<bar> = 1 then NaN else PInf)
      else if val b < 0 \<and> \<not> integral e then NaN
      else Fin (real_pow (val b) (val e)))"

section \<open>The banking functions\<close>

text \<open>
  Each function is written with the exponentiation it calls as its first argument
  \<open>pow\<close>, so that a statement can say that a branch does not depend on \<open>Math.pow\<close>; the
  functions of the source are the instances at \<open>js_pow\<close>. Parameters reassigned by
  \<open>p = p || 0\<close> are rebound by a \<open>let\<close> of the same name.
\<close>

definition FV_with ::
  "(jsval \<Rightarrow> jsval \<Rightarrow> jsval) \<Rightarrow> jsval \<Rightarrow> jsval \<Rightarrow> jsval \<Rightarrow> jsval \<Rightarrow> jsval \<Rightarrow> jsval" where
  "FV_with pow fv_rate fv_periods fv_payments fv_present_value0 fv_type0 =
     (let fv_present_value = or_default fv_present_value0 (Fin 0);
          fv_type = or_default fv_type0 (Fin 0)
      in if strict_eq fv_rate (Fin 0) then fv_present_value + fv_payments * fv_periods
         else
           (let term = pow (Fin 1 + fv_rate) fv_periods
            in if strict_eq (Fin 1) fv_type
               then fv_present_value * term
                      + fv_payments * (Fin 1 + fv_rate) * (term - Fin 1) / fv_rate
               else fv_present_value * term + fv_payments * (term - Fin 1) / fv_rate))"

definition PV_with ::
  "(jsval \<Rightarrow> jsval \<Rightarrow> jsval) \<Rightarrow> jsval \<Rightarrow> jsval \<Rightarrow> jsval \<Rightarrow> jsval \<Rightarrow> jsval \<Rightarrow> jsval" where
  "PV_with pow pv_rate pv_periods pv_payment pv_future0 fv_type0 =
     (let pv_future = or_default pv_future0 (Fin 0);
          fv_type = or_default fv_type0 (Fin 0)
      in if strict_eq pv_rate (Fin 0) then (- pv_payment) * pv_periods - pv_future
         else
           (((Fin 1 - pow (Fin 1 + pv_rate) pv_periods) / pv_rate) * pv_payment
                * (Fin 1 + pv_rate * fv_type) - pv_future)
             / pow (Fin 1 + pv_rate) pv_periods * Fin (- 1))"

definition PMT_with ::
  "(jsval \<Rightarrow> jsval \<Rightarrow> jsval) \<Rightarrow> jsval \<Rightarrow> jsval \<Rightarrow> jsval \<Rightarrow> jsval \<Rightarrow> jsval \<Rightarrow> jsval" where
  "PMT_with pow pmt_rate pmt_periods pmt_present pmt_future0 pmt_type0 =
     (let pmt_future = or_default pmt_future0 (Fin 0);
          pmt_type = or_default pmt_type0 (Fin 0)
      in if strict_eq pmt_rate (Fin 0) then (pmt_present + pmt_future) / pmt_periods
         else
           (let pmt_term = pow (Fin 1 + pmt_rate) pmt_periods
            in if strict_eq pmt_type (Fin 1)
               then (pmt_future * pmt_rate / (pmt_term - Fin 1)
                       + pmt_present * pmt_rate / (Fin 1 - Fin 1 / pmt_term))
                      / (Fin 1 + pmt_rate)
               else pmt_future * pmt_rate / (pmt_term - Fin 1)
                      + pmt_present * pmt_rate / (Fin 1 - Fin 1 / pmt_term)))"

definition IPMT_with ::
  "(jsval \<Rightarrow> jsval \<Rightarrow> jsval) \<Rightarrow> jsval \<Rightarrow> jsval \<Rightarrow> jsval \<Rightarrow> jsval \<Rightarrow> jsval \<Rightarrow> jsval \<Rightarrow> jsval" where
  "IPMT_with pow ipmt_rate ipmt_period ipmt_periods ipmt_present ipmt_future0 ipmt_type0 =
     (let ipmt_future = or_default ipmt_future0 (Fin 0);
          ipmt_type = or_default ipmt_type0 (Fin 0);
          impt_payment = PMT_with pow ipmt_rate ipmt_periods ipmt_present ipmt_future ipmt_type;
          impt_interest =
            (if strict_eq ipmt_period (Fin 1)
             then (if strict_eq ipmt_type (Fin 1) then Fin 0 else - ipmt_present)
             else (if strict_eq ipmt_type (Fin 1)
                   then FV_with pow ipmt_rate (ipmt_period - Fin 2) impt_payment ipmt_present (Fin 1)
                          - impt_payment
                   else FV_with pow ipmt_rate (ipmt_period - Fin 1) impt_payment ipmt_present (Fin 0)))
      in impt_interest * ipmt_rate)"

definition PPMT_with ::
  "(jsval \<Rightarrow> jsval \<Rightarrow> jsval) \<Rightarrow> jsval \<Rightarrow> jsval \<Rightarrow> jsval \<Rightarrow> jsval \<Rightarrow> jsval \<Rightarrow> jsval \<Rightarrow> jsval" where
  "PPMT_with pow ppmt_rate ppmt_period ppmt_periods ppmt_present ppmt_future0 ppmt_type0 =
     (let ppmt_future = or_default ppmt_future0 (Fin 0);
          ppmt_type = or_default ppmt_type0 (Fin 0)
      in PMT_with pow ppmt_rate ppmt_periods ppmt_present ppmt_future ppmt_type
           - IPMT_with pow ppmt_rate ppmt_period ppmt_periods ppmt_present ppmt_future ppmt_type)"

definition FV :: "jsval \<Rightarrow> jsval \<Rightarrow> jsval \<Rightarrow> jsval \<Rightarrow> jsval \<Rightarrow> jsval" where
  "FV = FV_with js_pow"

definition PV :: "jsval \<Rightarrow> jsval \<Rightarrow> jsval \<Rightarrow> jsval \<Rightarrow> jsval \<Rightarrow> jsval" where
  "PV = PV_with js_pow"

definition PMT :: "jsval \<Rightarrow> jsval \<Rightarrow> jsval \<Rightarrow> jsval \<Rightarrow> jsval \<Rightarrow> jsval" where
  "PMT = PMT_with js_pow"

definition IPMT :: "jsval \<Rightarrow> jsval \<Rightarrow> jsval \<Rightarrow> jsval \<Rightarrow> jsval \<Rightarrow> jsval \<Rightarrow> jsval" where
  "IPMT = IPMT_with js_pow"

definition PPMT :: "jsval \<Rightarrow> jsval \<Rightarrow> jsval \<Rightarrow> jsval \<Rightarrow> jsval \<Rightarrow> jsval \<Rightarrow> jsval" where
  "PPMT = PPMT_with js_pow"

text \<open>\<open>approx x c tol\<close>: \<open>x\<close> is a finite number within \<open>tol\<close> of the real \<open>c\<close>.\<close>

definition approx :: "jsval \<Rightarrow> real \<Rightarrow> real \<Rightarrow> bool" where
  "approx x c tol = (is_finite x \<and> \<bar>val x - c\<bar> < tol)"

section \<open>Double precision\<close>

text \<open>
  \<open>round_even z\<close> is the integer nearest to \<open>z\<close>; of two integers equally near, the even
  one.
\<close>

definition round_even :: "real \<Rightarrow> int" where
  "round_even z =
     (let f = \<lfloor>z\<rfloor>; d = z - real_of_int f
      in if d < 1 / 2 then f else if 1 / 2 < d then f + 1 else if even f then f else f + 1)"

text \<open>
  A finite double is an integer multiple \<open>m * 2^(e - 52)\<close> with \<open>|m| < 2^53\<close> and an
  exponent \<open>e\<close> from \<open>-1022\<close> to \<open>1023\<close>. \<open>binade x\<close> is the exponent of the real \<open>x\<close>:
  \<open>2^e \<le> |x| < 2^(e + 1)\<close>, and \<open>-1022\<close> for every smaller \<open>x\<close> (the subnormal range).
\<close>

definition binade :: "real \<Rightarrow> int" where
  "binade x = max \<lfloor>log 2 \<bar>x\<bar>\<rfloor> (- 1022)"

text \<open>
  \<open>rd x\<close> is the double nearest to the real \<open>x\<close>, ties to even, the rounding of every
  arithmetic operator of the language: \<open>x\<close> is rounded to a multiple of the spacing
  \<open>2^(e - 52)\<close> of its binade; a result of magnitude \<open>2^1024\<close> is the infinity of the sign
  of \<open>x\<close>, and a result \<open>0\<close> is the zero of the sign of \<open>x\<close>.
\<close>

definition rd :: "real \<Rightarrow> jsval" where
  "rd x =
     (if x = 0 then Fin 0
      else
        (let q = 2 powi (binade x - 52);
             y = real_of_int (round_even (x / q)) * q
         in if 2 ^ 1024 \<le> \<bar>y\<bar> then inf_of (x < 0)
            else if y = 0 then zero_of (x < 0)
            else Fin y))"

text \<open>Rounding leaves the special values and the negative zero as they are.\<close>

fun round_js :: "jsval \<Rightarrow> jsval" where
  "round_js (Fin r) = rd r"
| "round_js x = x"

text \<open>
  The error of a rounding is at most \<open>2^-53\<close> of the magnitude of the exact result, or
  half the spacing \<open>2^-1074\<close> of the subnormal doubles.
\<close>

definition unit_roundoff :: real where
  "unit_roundoff = 1 / 2 ^ 53"

definition half_min_step :: real where
  "half_min_step = 1 / 2 ^ 1075"

subsection \<open>The operators in double precision\<close>

text \<open>
  A value of the second layer is a value of the first, marked as such; an operator of the
  second layer is the operator of the first, followed by the rounding. Negation flips the
  sign bit and does not round. \<open>===\<close> and \<open>||\<close> are those of the first layer.
\<close>

datatype double = Dbl (js: jsval)

abbreviation DFin :: "real \<Rightarrow> double" where
  "DFin r \<equiv> Dbl (Fin r)"

instantiation double :: plus
begin

definition plus_double :: "double \<Rightarrow> double \<Rightarrow> double" where
  "a + b = Dbl (round_js (js a + js b))"

instance ..

end

instantiation double :: uminus
begin

definition uminus_double :: "double \<Rightarrow> double" where
  "- a = Dbl (- js a)"

instance ..

end

instantiation double :: minus
begin

definition minus_double :: "double \<Rightarrow> double \<Rightarrow> double" where
  "(a::double) - b = a + (- b)"

instance ..

end

instantiation double :: times
begin

definition times_double :: "double \<Rightarrow> double \<Rightarrow> double" where
  "a * b = Dbl (round_js (js a * js b))"

instance ..

end

instantiation double :: inverse
begin

definition divide_double :: "double \<Rightarrow> double \<Rightarrow> double" where
  "divide a b = Dbl (round_js (js a / js b))"

definition inverse_double :: "double \<Rightarrow> double" where
  "inverse_double b = divide (DFin 1) b"

instance ..

end

definition strict_eq_d :: "double \<Rightarrow> double \<Rightarrow> bool" where
  "strict_eq_d a b = strict_eq (js a) (js b)"

definition or_default_d :: "double \<Rightarrow> double \<Rightarrow> double" where
  "or_default_d x d = (if truthy (js x) then x else d)"

text \<open>
  \<open>Math.pow\<close> in double precision. The language leaves the accuracy of \<open>Math.pow\<close> to the
  implementation; \<open>pow_d\<close> is the power rounded once. The statements below evaluate it
  only where every implementation agrees with it: at a zero exponent, at powers of \<open>1\<close>
  and \<open>2\<close> that are doubles, and at \<open>2^32\<close> to the \<open>32\<close>, which overflows. The general
  statements hold for every function in its place.
\<close>

definition pow_d :: "double \<Rightarrow> double \<Rightarrow> double" where
  "pow_d a b = Dbl (round_js (js_pow (js a) (js b)))"

subsection \<open>The banking functions in double precision\<close>

text \<open>The text of the five functions again, over the operators that round.\<close>

definition FV_d_with ::
  "(double \<Rightarrow> double \<Rightarrow> double) \<Rightarrow> double \<Rightarrow> double \<Rightarrow> double \<Rightarrow> double \<Rightarrow> double \<Rightarrow> double" where
  "FV_d_with pow fv_rate fv_periods fv_payments fv_present_value0 fv_type0 =
     (let fv_present_value = or_default_d fv_present_value0 (DFin 0);
          fv_type = or_default_d fv_type0 (DFin 0)
      in if strict_eq_d fv_rate (DFin 0) then fv_present_value + fv_payments * fv_periods
         else
           (let term = pow (DFin 1 + fv_rate) fv_periods
            in if strict_eq_d (DFin 1) fv_type
               then fv_present_value * term
                      + fv_payments * (DFin 1 + fv_rate) * (term - DFin 1) / fv_rate
               else fv_present_value * term + fv_payments * (term - DFin 1) / fv_rate))"

definition PV_d_with ::
  "(double \<Rightarrow> double \<Rightarrow> double) \<Rightarrow> double \<Rightarrow> double \<Rightarrow> double \<Rightarrow> double \<Rightarrow> double \<Rightarrow> double" where
  "PV_d_with pow pv_rate pv_periods pv_payment pv_future0 fv_type0 =
     (let pv_future = or_default_d pv_future0 (DFin 0);
          fv_type = or_default_d fv_type0 (DFin 0)
      in if strict_eq_d pv_rate (DFin 0) then (- pv_payment) * pv_periods - pv_future
         else
           (((DFin 1 - pow (DFin 1 + pv_rate) pv_periods) / pv_rate) * pv_payment
                * (DFin 1 + pv_rate * fv_type) - pv_future)
             / pow (DFin 1 + pv_rate) pv_periods * DFin (- 1))"

definition PMT_d_with ::
  "(double \<Rightarrow> double \<Rightarrow> double) \<Rightarrow> double \<Rightarrow> double \<Rightarrow> double \<Rightarrow> double \<Rightarrow> double \<Rightarrow> double" where
  "PMT_d_with pow pmt_rate pmt_periods pmt_present pmt_future0 pmt_type0 =
     (let pmt_future = or_default_d pmt_future0 (DFin 0);
          pmt_type = or_default_d pmt_type0 (DFin 0)
      in if strict_eq_d pmt_rate (DFin 0) then (pmt_present + pmt_future) / pmt_periods
         else
           (let pmt_term = pow (DFin 1 + pmt_rate) pmt_periods
            in if strict_eq_d pmt_type (DFin 1)
               then (pmt_future * pmt_rate / (pmt_term - DFin 1)
                       + pmt_present * pmt_rate / (DFin 1 - DFin 1 / pmt_term))
                      / (DFin 1 + pmt_rate)
               else pmt_future * pmt_rate / (pmt_term - DFin 1)
                      + pmt_present * pmt_rate / (DFin 1 - DFin 1 / pmt_term)))"

definition IPMT_d_with ::
  "(double \<Rightarrow> double \<Rightarrow> double) \<Rightarrow> double \<Rightarrow> double \<Rightarrow> double \<Rightarrow> double \<Rightarrow> double \<Rightarrow> double \<Rightarrow> double" where
  "IPMT_d_with pow ipmt_rate ipmt_period ipmt_periods ipmt_present ipmt_future0 ipmt_type0 =
     (let ipmt_future = or_default_d ipmt_future0 (DFin 0);
          ipmt_type = or_default_d ipmt_type0 (DFin 0);
          impt_payment = PMT_d_with pow ipmt_rate ipmt_periods ipmt_present ipmt_future ipmt_type;
          impt_interest =
            (if strict_eq_d ipmt_period (DFin 1)
             then (if strict_eq_d ipmt_type (DFin 1) then DFin 0 else - ipmt_present)
             else (if strict_eq_d ipmt_type (DFin 1)
                   then FV_d_with pow ipmt_rate (ipmt_period - DFin 2) impt_payment ipmt_present
                          (DFin 1)
                          - impt_payment
                   else FV_d_with pow ipmt_rate (ipmt_period - DFin 1) impt_payment ipmt_present
                          (DFin 0)))
      in impt_interest * ipmt_rate)"

definition PPMT_d_with ::
  "(double \<Rightarrow> double \<Rightarrow> double) \<Rightarrow> double \<Rightarrow> double \<Rightarrow> double \<Rightarrow> double \<Rightarrow> double \<Rightarrow> double \<Rightarrow> double" where
  "PPMT_d_with pow ppmt_rate ppmt_period ppmt_periods ppmt_present ppmt_future0 ppmt_type0 =
     (let ppmt_future = or_default_d ppmt_future0 (DFin 0);
          ppmt_type = or_default_d ppmt_type0 (DFin 0)
      in PMT_d_with pow ppmt_rate ppmt_periods ppmt_present ppmt_future ppmt_type
           - IPMT_d_with pow ppmt_rate ppmt_period ppmt_periods ppmt_present ppmt_future
               ppmt_type)"

definition FV_d :: "double \<Rightarrow> double \<Rightarrow> double \<Rightarrow> double \<Rightarrow> double \<Rightarrow> double" where
  "FV_d = FV_d_with pow_d"

definition PV_d :: "double \<Rightarrow> double \<Rightarrow> double \<Rightarrow> double \<Rightarrow> double \<Rightarrow> double" where
  "PV_d = PV_d_with pow_d"

definition PMT_d :: "double \<Rightarrow> double \<Rightarrow> double \<Rightarrow> double \<Rightarrow> double \<Rightarrow> double" where
  "PMT_d = PMT_d_with pow_d"

definition IPMT_d :: "double \<Rightarrow> double \<Rightarrow> double \<Rightarrow> double \<Rightarrow> double \<Rightarrow> double \<Rightarrow> double" where
  "IPMT_d = IPMT_d_with pow_d"

definition PPMT_d :: "double \<Rightarrow> double \<Rightarrow> double \<Rightarrow> double \<Rightarrow> double \<Rightarrow> double \<Rightarrow> double" where
  "PPMT_d = PPMT_d_with pow_d"

section \<open>Arithmetic on finite numbers\<close>

text \<open>
  On finite operands the operators compute the real operation on the values; a division
  needs a divisor whose value is not zero. The sign of a zero result is the only thing
  \<open>val\<close> forgets, and \<open>===\<close> does not see it.
\<close>

lemma fin_add:
  "is_finite a \<Longrightarrow> is_finite b \<Longrightarrow> is_finite (a + b) \<and> val (a + b) = val a + val b"
  by (cases a; cases b) simp_all

lemma fin_neg: "is_finite a \<Longrightarrow> is_finite (- a) \<and> val (- a) = - val a"
  by (cases a) simp_all

lemma fin_sub:
  "is_finite a \<Longrightarrow> is_finite b \<Longrightarrow> is_finite (a - b) \<and> val (a - b) = val a - val b"
  by (simp add: minus_jsval_def fin_add fin_neg)

lemma fin_mul:
  "is_finite a \<Longrightarrow> is_finite b \<Longrightarrow> is_finite (a * b) \<and> val (a * b) = val a * val b"
  by (cases a; cases b) (auto simp: times_jsval_def zero_of_def Let_def)

lemma fin_div:
  "is_finite a \<Longrightarrow> is_finite b \<Longrightarrow> val b \<noteq> 0 \<Longrightarrow>
   is_finite (a / b) \<and> val (a / b) = val a / val b"
  by (cases a; cases b) (auto simp: divide_jsval_def zero_of_def Let_def)

lemma fin_or_default:
  "is_finite x \<Longrightarrow>
   is_finite (or_default x (Fin 0)) \<and> val (or_default x (Fin 0)) = val x"
  by (cases x) (simp_all add: or_default_def)

lemma strict_eq_finite:
  "is_finite a \<Longrightarrow> is_finite b \<Longrightarrow> strict_eq a b = (val a = val b)"
  by (cases a; cases b) simp_all

lemma or_default_idem: "or_default (or_default x d) d = or_default x d"
  by (simp add: or_default_def)

lemma mul_commute: "(a::jsval) * b = b * a"
  by (auto simp: times_jsval_def Let_def sign_xor_def mult.commute)

subsection \<open>A zero exponent\<close>

lemma js_pow_zero_exponent: "is_zero e \<Longrightarrow> js_pow b e = Fin 1"
  by (cases e) (simp_all add: js_pow_def Let_def)

subsection \<open>Defaults\<close>

lemma or_default_zero: "or_default (Fin 0) d = d"
  by (simp add: or_default_def)

lemma or_default_one: "or_default (Fin 1) d = Fin 1"
  by (simp add: or_default_def)

lemma sub_Fin: "Fin a - Fin b = Fin (a - b)"
  by (simp add: minus_jsval_def)

text \<open>
  \<open>IPMT\<close> and \<open>PPMT\<close> default their arguments and pass them on to functions that default
  them again; the second \<open>|| 0\<close> changes nothing.
\<close>

lemma PMT_with_default:
  "PMT_with pow r n v (or_default f (Fin 0)) (or_default t (Fin 0)) = PMT_with pow r n v f t"
  by (simp add: PMT_with_def or_default_idem)

subsection \<open>Finite results\<close>

text \<open>The rules of finite arithmetic, one conclusion each, as the simplifier uses them.\<close>

lemmas fin_simps =
  fin_add [THEN conjunct1] fin_add [THEN conjunct2]
  fin_neg [THEN conjunct1] fin_neg [THEN conjunct2]
  fin_sub [THEN conjunct1] fin_sub [THEN conjunct2]
  fin_mul [THEN conjunct1] fin_mul [THEN conjunct2]
  fin_div [THEN conjunct1] fin_div [THEN conjunct2]
  fin_or_default [THEN conjunct1] fin_or_default [THEN conjunct2]

subsection \<open>Results that are not finite\<close>

lemma non_finite_div_zero: "is_zero d \<Longrightarrow> non_finite (x / d)"
  by (cases x; cases d) (auto simp: divide_jsval_def inf_of_def Let_def)

lemma non_finite_div: "non_finite a \<Longrightarrow> non_finite (a / d)"
  by (cases a; cases d) (auto simp: divide_jsval_def inf_of_def Let_def)

lemma non_finite_add_left: "non_finite a \<Longrightarrow> non_finite (a + b)"
  by (cases a; cases b) simp_all

lemma non_finite_mul_PInf: "non_finite (x * PInf)"
  by (cases x) (auto simp: times_jsval_def inf_of_def Let_def)

lemma PMT_zero_periods:
  assumes "is_zero periods"
  shows "non_finite (PMT_with js_pow rate periods present future type)"
proof (cases "strict_eq rate (Fin 0)")
  case True
  then show ?thesis
    using assms by (simp add: PMT_with_def Let_def non_finite_div_zero)
next
  case False
  have tm: "js_pow (Fin 1 + rate) periods = Fin 1"
    using assms by (rule js_pow_zero_exponent)
  have d1: "Fin 1 - Fin 1 = Fin 0" and d2: "Fin 1 - Fin 1 / Fin 1 = Fin 0"
    by (simp_all add: minus_jsval_def divide_jsval_def)
  have "non_finite (x / (Fin 1 - Fin 1) + y / (Fin 1 - Fin 1 / Fin 1))" for x y :: jsval
    by (simp add: d1 d2 non_finite_div_zero non_finite_add_left)
  then show ?thesis
    using False by (simp add: PMT_with_def Let_def tm non_finite_div)
qed

subsection \<open>The type flag\<close>

lemma not_one_left: "t \<noteq> Fin 1 \<Longrightarrow> strict_eq (Fin 1) (or_default t (Fin 0)) = False"
  by (cases t) (auto simp: or_default_def)

lemma not_one_right: "t \<noteq> Fin 1 \<Longrightarrow> strict_eq (or_default t (Fin 0)) (Fin 1) = False"
  by (cases t) (auto simp: or_default_def)

lemma FV_with_not_one:
  "t \<noteq> Fin 1 \<Longrightarrow> FV_with pow r n p v t = FV_with pow r n p v (Fin 0)"
  by (simp add: FV_with_def not_one_left Let_def or_default_zero)

lemma PMT_with_not_one:
  "t \<noteq> Fin 1 \<Longrightarrow> PMT_with pow r n v f t = PMT_with pow r n v f (Fin 0)"
  by (simp add: PMT_with_def not_one_right Let_def or_default_zero)

lemma IPMT_with_not_one:
  assumes "t \<noteq> Fin 1"
  shows "IPMT_with pow r k n v f t = IPMT_with pow r k n v f (Fin 0)"
proof -
  have "PMT_with pow r n v (or_default f (Fin 0)) (or_default t (Fin 0))
          = PMT_with pow r n v f t"
    by (rule PMT_with_default)
  also have "\<dots> = PMT_with pow r n v f (Fin 0)"
    by (rule PMT_with_not_one [OF assms])
  also have "\<dots> = PMT_with pow r n v (or_default f (Fin 0)) (or_default (Fin 0) (Fin 0))"
    by (rule PMT_with_default [symmetric])
  finally have pay: "PMT_with pow r n v (or_default f (Fin 0)) (or_default t (Fin 0))
               = PMT_with pow r n v (or_default f (Fin 0)) (Fin 0)"
    by (simp only: or_default_zero)
  show ?thesis
    using not_one_right [OF assms] by (simp add: IPMT_with_def Let_def pay or_default_zero)
qed

section \<open>Rounding to a double\<close>

text \<open>
  The rounding error: a finite \<open>rd x\<close> is within \<open>|x| * 2^-53 + 2^-1075\<close> of \<open>x\<close>, and
  \<open>rd x\<close> is finite for \<open>|x| \<le> 2^1023\<close>. \<open>rd_eval\<close> computes \<open>rd x\<close> from the binade of
  \<open>x\<close>.
\<close>

lemma rd_zero: "rd 0 = Fin 0"
  by (simp add: rd_def)

lemma round_even_error: "\<bar>real_of_int (round_even z) - z\<bar> \<le> 1 / 2"
  unfolding round_even_def Let_def by (auto simp: abs_le_iff)

lemma floor_log2:
  assumes "x \<noteq> 0"
  shows "2 powi \<lfloor>log 2 \<bar>x\<bar>\<rfloor> \<le> \<bar>x\<bar>" and "\<bar>x\<bar> < 2 powi (\<lfloor>log 2 \<bar>x\<bar>\<rfloor> + 1)"
proof -
  have pos: "0 < \<bar>x\<bar>" using assms by simp
  have "2 powr real_of_int \<lfloor>log 2 \<bar>x\<bar>\<rfloor> \<le> \<bar>x\<bar>
        \<and> \<bar>x\<bar> < 2 powr (real_of_int \<lfloor>log 2 \<bar>x\<bar>\<rfloor> + 1)"
    using floor_log_eq_powr_iff [OF pos, of 2 "\<lfloor>log 2 \<bar>x\<bar>\<rfloor>"] by simp
  then show "2 powi \<lfloor>log 2 \<bar>x\<bar>\<rfloor> \<le> \<bar>x\<bar>" and "\<bar>x\<bar> < 2 powi (\<lfloor>log 2 \<bar>x\<bar>\<rfloor> + 1)"
    using powr_real_of_int' [of 2 "\<lfloor>log 2 \<bar>x\<bar>\<rfloor>"] powr_real_of_int' [of 2 "\<lfloor>log 2 \<bar>x\<bar>\<rfloor> + 1"]
    by simp_all
qed

lemma above_power_int_nonzero:
  assumes "2 powi e \<le> \<bar>x\<bar>"
  shows "x \<noteq> (0::real)"
proof -
  have "(0::real) < 2 powi e"
    by simp
  from this assms have "0 < \<bar>x\<bar>"
    by (rule less_le_trans)
  then show ?thesis
    by simp
qed


lemma binade_eq:
  assumes "2 powi e \<le> \<bar>x\<bar>" "\<bar>x\<bar> < 2 powi (e + 1)" "- 1022 \<le> e"
  shows "binade x = e"
proof -
  have pos: "0 < \<bar>x\<bar>"
    using above_power_int_nonzero [OF assms(1)] by simp
  have "2 powr real_of_int e \<le> \<bar>x\<bar> \<and> \<bar>x\<bar> < 2 powr (real_of_int e + 1)"
    using assms(1,2) powr_real_of_int' [of 2 e] powr_real_of_int' [of 2 "e + 1"] by simp
  then have "\<lfloor>log 2 \<bar>x\<bar>\<rfloor> = e"
    using floor_log_eq_powr_iff [OF pos, of 2 e] by simp
  then show ?thesis
    using assms(3) by (simp add: binade_def)
qed

lemma unit_roundoff_bounds: "0 < unit_roundoff" "unit_roundoff \<le> 1 / 2"
  by (simp_all add: unit_roundoff_def)

lemma half_min_step_pos: "0 < half_min_step"
  by (simp add: half_min_step_def)

lemma half_min_step_eq: "half_min_step = unit_roundoff / 2 ^ 1022"
  by (simp add: half_min_step_def unit_roundoff_def)

lemma rd_error:
  assumes "is_finite (rd x)"
  shows "\<bar>val (rd x) - x\<bar> \<le> \<bar>x\<bar> * unit_roundoff + half_min_step"
proof (cases "x = 0")
  case True
  then show ?thesis
    using half_min_step_pos by (simp add: rd_def)
next
  case False
  define q :: real where "q = 2 powi (binade x - 52)"
  define y where "y = real_of_int (round_even (x / q)) * q"
  have q: "0 < q"
    by (simp add: q_def)
  have "y - x = (real_of_int (round_even (x / q)) - x / q) * q"
    using q by (simp add: y_def left_diff_distrib)
  then have "\<bar>y - x\<bar> = \<bar>real_of_int (round_even (x / q)) - x / q\<bar> * q"
    using q by (simp only: abs_mult abs_of_pos)
  also have "\<dots> \<le> 1 / 2 * q"
    using q round_even_error [of "x / q"] by (intro mult_right_mono) simp_all
  finally have err: "\<bar>y - x\<bar> \<le> q / 2"
    by simp
  have v: "val (rd x) = y"
    using assms False unfolding rd_def Let_def q_def [symmetric] y_def [symmetric]
    by (auto simp: zero_of_def inf_of_def split: if_splits)
  have "q / 2 \<le> \<bar>x\<bar> * unit_roundoff + half_min_step"
  proof (cases "- 1022 \<le> \<lfloor>log 2 \<bar>x\<bar>\<rfloor>")
    case True
    then have "binade x = \<lfloor>log 2 \<bar>x\<bar>\<rfloor>"
      by (simp add: binade_def)
    then have "q = 2 powi \<lfloor>log 2 \<bar>x\<bar>\<rfloor> / 2 ^ 52"
      by (simp add: q_def power_int_diff)
    then have "q / 2 \<le> \<bar>x\<bar> / 2 ^ 53"
      using floor_log2(1) [OF False] by simp
    then have "q / 2 \<le> \<bar>x\<bar> * unit_roundoff"
      by (simp add: unit_roundoff_def)
    then show ?thesis
      using half_min_step_pos by linarith
  next
    case False
    then have "binade x = - 1022"
      by (simp add: binade_def)
    then have "q = 1 / 2 ^ 1074"
      by (simp add: q_def power_int_minus_divide)
    then have "q / 2 = half_min_step"
      by (simp add: half_min_step_def)
    moreover have "0 \<le> \<bar>x\<bar> * unit_roundoff"
      using unit_roundoff_bounds(1) by simp
    ultimately show ?thesis
      by linarith
  qed
  then show ?thesis
    using err v by linarith
qed

lemma rd_eval:
  assumes "2 powi e \<le> \<bar>x\<bar>" "\<bar>x\<bar> < 2 powi (e + 1)" "- 1022 \<le> e"
  shows "rd x =
     (let q = 2 powi (e - 52);
          y = real_of_int (round_even (x / q)) * q
      in if 2 ^ 1024 \<le> \<bar>y\<bar> then inf_of (x < 0)
         else if y = 0 then zero_of (x < 0)
         else Fin y)"
proof -
  have "x \<noteq> 0"
    by (rule above_power_int_nonzero [OF assms(1)])
  then show ?thesis
    by (simp add: rd_def binade_eq [OF assms])
qed

lemma rd_finite:
  assumes "\<bar>x\<bar> \<le> 2 ^ 1023"
  shows "is_finite (rd x)"
proof (cases "x = 0")
  case True
  then show ?thesis by (simp add: rd_def)
next
  case False
  define q :: real where "q = 2 powi (binade x - 52)"
  define y where "y = real_of_int (round_even (x / q)) * q"
  have q: "0 < q"
    by (simp add: q_def)
  have "y - x = (real_of_int (round_even (x / q)) - x / q) * q"
    using q by (simp add: y_def left_diff_distrib)
  then have "\<bar>y - x\<bar> = \<bar>real_of_int (round_even (x / q)) - x / q\<bar> * q"
    using q by (simp only: abs_mult abs_of_pos)
  also have "\<dots> \<le> 1 / 2 * q"
    using q round_even_error [of "x / q"] by (intro mult_right_mono) simp_all
  finally have err: "\<bar>y - x\<bar> \<le> q / 2"
    by simp
  have "2 powi \<lfloor>log 2 \<bar>x\<bar>\<rfloor> \<le> \<bar>x\<bar>"
    by (rule floor_log2(1) [OF False])
  also have "\<bar>x\<bar> \<le> 2 ^ 1023"
    by (rule assms)
  also have "(2::real) ^ 1023 = 2 powi 1023"
    by (simp only: power_int_numeral)
  finally have le: "(2::real) powi \<lfloor>log 2 \<bar>x\<bar>\<rfloor> \<le> 2 powi 1023" .
  have "1 < (2::real)"
    by simp
  from power_int_le_imp_le_exp [OF this le] have "\<lfloor>log 2 \<bar>x\<bar>\<rfloor> \<le> 1023"
    by simp
  then have "binade x - 52 \<le> 971"
    by (simp add: binade_def)
  then have "q \<le> 2 powi 971"
    unfolding q_def by (intro power_int_increasing) simp_all
  also have "(2::real) powi 971 = 2 ^ 971"
    by (simp only: power_int_numeral)
  finally have q971: "q / 2 \<le> 2 ^ 971 / 2"
    by (rule divide_right_mono) simp
  have "\<bar>y\<bar> \<le> \<bar>x\<bar> + q / 2"
    using err by linarith
  also have "\<dots> \<le> 2 ^ 1023 + 2 ^ 971 / 2"
    using assms q971 by (rule add_mono)
  also have "\<dots> < (2::real) ^ 1024"
    by simp
  finally have "\<bar>y\<bar> < 2 ^ 1024" .
  then show ?thesis
    using False unfolding rd_def Let_def q_def [symmetric] y_def [symmetric]
    by (simp add: zero_of_def)
qed

subsection \<open>Rounded results\<close>

text \<open>
  \<open>round_js_step\<close> is one step of an error analysis: a result that is within \<open>k\<close> units
  \<open>2^-53 * |c|\<close> of a real \<open>c\<close> before the rounding is within \<open>k + 3\<close> units after it, as
  long as \<open>c\<close> is far from overflow and underflow.
\<close>

lemma round_js_finite: "is_finite (round_js y) \<Longrightarrow> is_finite y"
  by (cases y) simp_all

lemma round_js_error:
  "is_finite (round_js y) \<Longrightarrow>
   \<bar>val (round_js y) - val y\<bar> \<le> \<bar>val y\<bar> * unit_roundoff + half_min_step"
  using half_min_step_pos by (cases y) (simp_all add: rd_error)



lemma round_js_bounded:
  assumes "is_finite y" "\<bar>val y\<bar> \<le> 2 ^ 1023"
  shows "is_finite (round_js y) \<and> \<bar>val (round_js y)\<bar> \<le> 2 * \<bar>val y\<bar> + 1"
proof -
  have f: "is_finite (round_js y)"
    using assms by (cases y) (simp_all add: rd_finite)
  have "\<bar>val y\<bar> * unit_roundoff \<le> \<bar>val y\<bar> * (1 / 2)"
    using unit_roundoff_bounds(2) by (intro mult_left_mono) simp_all
  moreover have "half_min_step \<le> 1"
    by (simp add: half_min_step_def)
  ultimately show ?thesis
    using round_js_error [OF f] f by (simp add: abs_le_iff) linarith
qed

lemma add_finite: "is_finite (a + b) \<Longrightarrow> is_finite a \<and> is_finite b"
  by (cases a; cases b) simp_all

lemma neg_finite: "is_finite (- a) = is_finite a"
  by (cases a) simp_all

subsection \<open>Operators on doubles\<close>

lemmas d_ops = plus_double_def minus_double_def uminus_double_def times_double_def
  divide_double_def times_jsval_def divide_jsval_def round_even_def zero_of_def sign_xor_def
  rd_zero

lemma or_default_d_zero: "or_default_d (DFin 0) d = d"
  by (simp add: or_default_d_def)

lemma or_default_d_one: "or_default_d (DFin 1) d = DFin 1"
  by (simp add: or_default_d_def)





lemma d_add_bounded:
  assumes "is_finite (js a)" "is_finite (js b)" "\<bar>val (js a) + val (js b)\<bar> \<le> 2 ^ 1023"
  shows "is_finite (js (a + b))
         \<and> \<bar>val (js (a + b))\<bar> \<le> 2 * \<bar>val (js a) + val (js b)\<bar> + 1"
  unfolding plus_double_def double.sel
  using fin_add [of "js a" "js b"] assms round_js_bounded [of "js a + js b"] by simp

lemma d_sub_bounded:
  assumes "is_finite (js a)" "is_finite (js b)" "\<bar>val (js a) - val (js b)\<bar> \<le> 2 ^ 1023"
  shows "is_finite (js (a - b))
         \<and> \<bar>val (js (a - b))\<bar> \<le> 2 * \<bar>val (js a) - val (js b)\<bar> + 1"
  unfolding minus_double_def plus_double_def uminus_double_def double.sel
  using fin_add [of "js a" "- js b"] fin_neg [of "js b"] assms
    round_js_bounded [of "js a + (- js b)"] by simp

text \<open>Powers of \<open>2\<close> are doubles.\<close>

lemma pow_d_two_one: "pow_d (DFin 2) (DFin 1) = DFin 2"
  by (simp add: pow_d_def js_pow_def real_pow_def integral_def rd_eval [of 1] round_even_def)


lemma pow_d_two_59: "pow_d (DFin 2) (DFin 59) = DFin (2 ^ 59)"
  by (simp add: pow_d_def js_pow_def real_pow_def integral_def rd_eval [of 59] round_even_def)

lemma pow_d_two_60: "pow_d (DFin 2) (DFin 60) = DFin (2 ^ 60)"
  by (simp add: pow_d_def js_pow_def real_pow_def integral_def rd_eval [of 60] round_even_def)

text \<open>
  The rounding at work. The largest double is \<open>2^1024 - 2^971\<close>, and the reals from
  \<open>2^1024 - 2^970\<close> on round to \<open>Infinity\<close>; \<open>0.1 * 3\<close> is \<open>0.30000000000000004\<close> (the
  double \<open>0.1\<close> is \<open>3602879701896397 / 2^55\<close>); \<open>1 + 2^-60\<close> is \<open>1\<close>; and
  \<open>Math.pow(2^32, 32)\<close> is \<open>Infinity\<close>.
\<close>

lemma rd_largest: "rd (2 ^ 1024 - 2 ^ 971) = Fin (2 ^ 1024 - 2 ^ 971)"
  by (simp add: rd_eval [of 1023] round_even_def inf_of_def)

lemma rd_overflow_threshold: "rd (2 ^ 1024 - 2 ^ 970) = PInf"
  by (simp add: rd_eval [of 1023] round_even_def inf_of_def)

lemma tenth_times_three:
  "DFin (3602879701896397 / 2 ^ 55) * DFin 3 = DFin (5404319552844596 / 2 ^ 54)"
  by (simp add: d_ops rd_eval [of "- 2"])

lemma one_plus_tiny: "DFin 1 + DFin (1 / 2 ^ 60) = DFin 1"
  by (simp add: d_ops rd_eval [of 0])

lemma pow_d_overflow: "pow_d (DFin (2 ^ 32)) (DFin 32) = Dbl PInf"
  by (simp add: pow_d_def js_pow_def real_pow_def integral_def rd_eval [of 1024] round_even_def
        inf_of_def)

text \<open>\<open>PPMT\<close> is the rounded difference of \<open>PMT\<close> and \<open>IPMT\<close>.\<close>

lemma PMT_d_with_default:
  "PMT_d_with pow r n v (or_default_d f (DFin 0)) (or_default_d t (DFin 0))
     = PMT_d_with pow r n v f t"
  by (simp add: PMT_d_with_def or_default_d_def)

lemma PPMT_d_with_eq:
  "PPMT_d_with pow r k n v f t = PMT_d_with pow r n v f t - IPMT_d_with pow r k n v f t"
proof -
  have "IPMT_d_with pow r k n v (or_default_d f (DFin 0)) (or_default_d t (DFin 0))
          = IPMT_d_with pow r k n v f t"
    by (simp add: IPMT_d_with_def or_default_d_def)
  then show ?thesis
    by (simp add: PPMT_d_with_def PMT_d_with_default)
qed

section \<open>The payment of a loan\<close>

lemma pmt_loan_value:
  "is_finite (PMT (Fin (1 / 100)) (Fin 36) (Fin 10000) (Fin 0) (Fin 0))
   \<and> val (PMT (Fin (1 / 100)) (Fin 36) (Fin 10000) (Fin 0) (Fin 0))
       = 100 / (1 - 1 / (101 / 100) ^ 36)"
proof -
  define T :: real where "T = (101 / 100) ^ 36"
  have pw: "js_pow (Fin 1 + Fin (1 / 100)) (Fin 36) = Fin T"
    by (simp add: js_pow_def Let_def real_pow_def integral_def T_def)
  have "1 < T"
    unfolding T_def by (rule one_less_power) simp_all
  then have d1: "T - 1 \<noteq> 0" and d2: "1 - 1 / T \<noteq> 0" and d3: "T \<noteq> 0"
    by simp_all
  have "is_finite (PMT (Fin (1 / 100)) (Fin 36) (Fin 10000) (Fin 0) (Fin 0))
   \<and> val (PMT (Fin (1 / 100)) (Fin 36) (Fin 10000) (Fin 0) (Fin 0)) = 100 / (1 - 1 / T)"
    unfolding PMT_def PMT_with_def Let_def or_default_zero pw
    using d1 d2 d3 by (simp add: fin_simps)
  then show ?thesis
    by (simp only: T_def)
qed

lemma pmt_loan_bounds:
  "(332143 / 1000 :: real) < 100 / (1 - 1 / (101 / 100) ^ 36)
   \<and> 100 / (1 - 1 / (101 / 100) ^ 36) < (332144 / 1000 :: real)"
  by (simp add: field_simps)

lemma pmt_loan_range:
  "is_finite (PMT (Fin (1 / 100)) (Fin 36) (Fin 10000) (Fin 0) (Fin 0))"
  "332143 / 1000 < val (PMT (Fin (1 / 100)) (Fin 36) (Fin 10000) (Fin 0) (Fin 0))"
  "val (PMT (Fin (1 / 100)) (Fin 36) (Fin 10000) (Fin 0) (Fin 0)) < 332144 / 1000"
proof -
  note eq = conjunct2 [OF pmt_loan_value]
  show "is_finite (PMT (Fin (1 / 100)) (Fin 36) (Fin 10000) (Fin 0) (Fin 0))"
    by (rule conjunct1 [OF pmt_loan_value])
  show "332143 / 1000 < val (PMT (Fin (1 / 100)) (Fin 36) (Fin 10000) (Fin 0) (Fin 0))"
    unfolding eq by (rule conjunct1 [OF pmt_loan_bounds])
  show "val (PMT (Fin (1 / 100)) (Fin 36) (Fin 10000) (Fin 0) (Fin 0)) < 332144 / 1000"
    unfolding eq by (rule conjunct2 [OF pmt_loan_bounds])
qed

text \<open>
  Claim C1, as amended. \<open>PMT(0.01, 36, 10000, 0, 0)\<close> returns a finite number within
  \<open>0.001\<close> of \<open>332.143\<close>: approximately \<open>332.143\<close>, a positive payment.
\<close>

theorem pmt_loan_positive:
  "approx (PMT (Fin (1 / 100)) (Fin 36) (Fin 10000) (Fin 0) (Fin 0)) (332143 / 1000) (1 / 1000)"
  unfolding approx_def using pmt_loan_range by (simp add: abs_less_iff)

text \<open>The claim as written, a result near \<open>-332.143\<close>, fails: the result is not negative.\<close>

theorem pmt_loan_not_negative:
  "\<not> approx (PMT (Fin (1 / 100)) (Fin 36) (Fin 10000) (Fin 0) (Fin 0)) (- 332143 / 1000) (1 / 1000)
   \<and> 0 < val (PMT (Fin (1 / 100)) (Fin 36) (Fin 10000) (Fin 0) (Fin 0))"
  unfolding approx_def using pmt_loan_range by (simp add: abs_less_iff)

section \<open>Future value and present value\<close>







text \<open>The same two results in double precision: every operation on the way is exact.\<close>

lemma fv_pv_same_sign_d:
  "PV_d (DFin 1) (DFin 1) (DFin 0) (FV_d (DFin 1) (DFin 1) (DFin 0) (DFin 1) (DFin 0)) (DFin 0)
     = DFin 1
   \<and> PV_d (DFin 1) (DFin 1) (DFin 1) (FV_d (DFin 1) (DFin 1) (DFin 1) (DFin 1) (DFin 0)) (DFin 0)
     = DFin 2"
proof -
  have ne: "\<not> strict_eq_d (DFin 1) (DFin 0)"
    by (simp add: strict_eq_d_def)
  have df: "or_default_d (DFin 2) (DFin 0) = DFin 2" "or_default_d (DFin 3) (DFin 0) = DFin 3"
    by (simp_all add: or_default_d_def)
  have a: "DFin 1 + DFin 1 = DFin 2" "DFin 1 * DFin 2 = DFin 2" "DFin 2 - DFin 1 = DFin 1"
    "DFin 2 + DFin 1 = DFin 3"
    by (simp_all add: d_ops rd_eval [of 1] rd_eval [of 0])
  have b: "DFin 0 * DFin 1 = DFin 0" "DFin 0 / DFin 1 = DFin 0" "DFin 1 * DFin 0 = DFin 0"
    "DFin (- 1) * DFin 0 = Dbl NegZero" "Dbl NegZero * DFin 1 = Dbl NegZero"
    by (simp_all add: d_ops)
  have c: "DFin 2 + DFin 0 = DFin 2" "DFin 1 + DFin 0 = DFin 1"
    by (simp_all add: d_ops rd_eval [of 1] rd_eval [of 0])
  have d: "DFin 1 * DFin 1 = DFin 1" "DFin 1 / DFin 1 = DFin 1" "DFin 1 - DFin 2 = DFin (- 1)"
    "DFin (- 1) / DFin 1 = DFin (- 1)" "DFin (- 1) * DFin 1 = DFin (- 1)"
    "DFin (- 1) * DFin (- 1) = DFin 1"
    by (simp_all add: d_ops rd_eval [of 0])
  have e: "Dbl NegZero - DFin 2 = DFin (- 2)" "DFin (- 2) / DFin 2 = DFin (- 1)"
    "DFin (- 2) * DFin (- 1) = DFin 2"
    by (simp_all add: d_ops rd_eval [of 1] rd_eval [of 0])
  have f: "DFin (- 1) - DFin 3 = DFin (- 4)" "DFin (- 4) / DFin 2 = DFin (- 2)"
    by (simp_all add: d_ops rd_eval [of 2] rd_eval [of 1])
  have fv: "FV_d (DFin 1) (DFin 1) (DFin 0) (DFin 1) (DFin 0) = DFin 2"
    unfolding FV_d_def FV_d_with_def Let_def or_default_d_zero or_default_d_one
    by (simp only: ne if_False a b c pow_d_two_one)
  have pv: "PV_d (DFin 1) (DFin 1) (DFin 0) (DFin 2) (DFin 0) = DFin 1"
    unfolding PV_d_def PV_d_with_def Let_def or_default_d_zero df
    by (simp only: ne if_False a b c d e pow_d_two_one)
  have fv': "FV_d (DFin 1) (DFin 1) (DFin 1) (DFin 1) (DFin 0) = DFin 3"
    unfolding FV_d_def FV_d_with_def Let_def or_default_d_zero or_default_d_one
    by (simp only: ne if_False a b c d pow_d_two_one)
  have pv': "PV_d (DFin 1) (DFin 1) (DFin 1) (DFin 3) (DFin 0) = DFin 2"
    unfolding PV_d_def PV_d_with_def Let_def or_default_d_zero df
    by (simp only: ne if_False a b c d e f pow_d_two_one)
  show ?thesis
    by (simp only: fv pv fv' pv' simp_thms)
qed

text \<open>
  Outside the bounds of the amended statement the power can overflow: at rate
  \<open>4294967295\<close> and \<open>32\<close> periods it is \<open>Math.pow(2^32, 32) = Infinity\<close>, the payment term
  is \<open>0 * Infinity\<close>, and \<open>FV\<close> is \<open>NaN\<close>.
\<close>

lemma fv_d_overflow: "FV_d (DFin 4294967295) (DFin 32) (DFin 0) (DFin 1) (DFin 0) = Dbl NaN"
proof -
  have ne: "\<not> strict_eq_d (DFin 4294967295) (DFin 0)" "\<not> strict_eq_d (DFin 1) (DFin 0)"
    by (simp_all add: strict_eq_d_def)
  have a: "DFin 1 + DFin 4294967295 = DFin (2 ^ 32)"
    by (simp add: d_ops rd_eval [of 32])
  have b: "DFin 1 * Dbl PInf = Dbl PInf" "Dbl PInf - DFin 1 = Dbl PInf"
    "DFin 0 * Dbl PInf = Dbl NaN" "Dbl NaN / DFin 4294967295 = Dbl NaN"
    "Dbl PInf + Dbl NaN = Dbl NaN"
    by (simp_all add: d_ops inf_of_def)
  show ?thesis
    unfolding FV_d_def FV_d_with_def Let_def or_default_d_zero or_default_d_one
    by (simp only: ne if_False a b pow_d_overflow)
qed

section \<open>Principal and interest add up to the payment\<close>

text \<open>
  At rate \<open>1\<close>, the last of \<open>60\<close> periods and present value \<open>1\<close>: the power is \<open>2^60\<close>,
  \<open>1 - 1 / 2^60\<close> rounds to \<open>1\<close> and the payment is \<open>1\<close>; the interest is
  \<open>FV(1, 59, 1, 1, 0) * 1 = 2^60\<close>; the principal \<open>1 - 2^60\<close> rounds to \<open>-2^60\<close>.
\<close>

lemma pmt_d_absorb: "PMT_d (DFin 1) (DFin 60) (DFin 1) (DFin 0) (DFin 0) = DFin 1"
proof -
  have one_plus: "DFin 1 + DFin 1 = DFin 2"
    by (simp add: d_ops rd_eval [of 1])
  have a: "DFin 0 * DFin 1 = DFin 0"
    by (simp add: d_ops)
  have b: "DFin (2 ^ 60) - DFin 1 = DFin (2 ^ 60)"
    by (simp add: d_ops rd_eval [of 59])
  have c: "DFin 0 / DFin (2 ^ 60) = DFin 0"
    by (simp add: d_ops)
  have d: "DFin 1 * DFin 1 = DFin 1"
    by (simp add: d_ops rd_eval [of 0])
  have e: "DFin 1 / DFin (2 ^ 60) = DFin (1 / 2 ^ 60)"
    by (simp add: d_ops rd_eval [of "- 60"])
  have f: "DFin 1 - DFin (1 / 2 ^ 60) = DFin 1"
    by (simp add: d_ops rd_eval [of "- 1"])
  have g: "DFin 1 / DFin 1 = DFin 1"
    by (simp add: d_ops rd_eval [of 0])
  have h: "DFin 0 + DFin 1 = DFin 1"
    by (simp add: d_ops rd_eval [of 0])
  have ne: "\<not> strict_eq_d (DFin 1) (DFin 0)" "\<not> strict_eq_d (DFin 0) (DFin 1)"
    by (simp_all add: strict_eq_d_def)
  show ?thesis
    unfolding PMT_d_def PMT_d_with_def Let_def or_default_d_zero
    by (simp only: ne if_False one_plus pow_d_two_60 a b c d e f g h)
qed

lemma ipmt_d_absorb:
  "IPMT_d (DFin 1) (DFin 60) (DFin 60) (DFin 1) (DFin 0) (DFin 0) = DFin (2 ^ 60)"
proof -
  have pay: "PMT_d_with pow_d (DFin 1) (DFin 60) (DFin 1) (DFin 0) (DFin 0) = DFin 1"
    using pmt_d_absorb by (simp add: PMT_d_def)
  have k: "DFin 60 - DFin 1 = DFin 59"
    by (simp add: d_ops rd_eval [of 5])
  have one_plus: "DFin 1 + DFin 1 = DFin 2"
    by (simp add: d_ops rd_eval [of 1])
  have a: "DFin 1 * DFin (2 ^ 59) = DFin (2 ^ 59)"
    by (simp add: d_ops rd_eval [of 59])
  have b: "DFin (2 ^ 59) - DFin 1 = DFin (2 ^ 59)"
    by (simp add: d_ops rd_eval [of 58])
  have c: "DFin (2 ^ 59) / DFin 1 = DFin (2 ^ 59)"
    by (simp add: d_ops rd_eval [of 59])
  have d: "DFin (2 ^ 59) + DFin (2 ^ 59) = DFin (2 ^ 60)"
    by (simp add: d_ops rd_eval [of 60])
  have e: "DFin (2 ^ 60) * DFin 1 = DFin (2 ^ 60)"
    by (simp add: d_ops rd_eval [of 60])
  have ne: "\<not> strict_eq_d (DFin 1) (DFin 0)" "\<not> strict_eq_d (DFin 0) (DFin 1)"
    "\<not> strict_eq_d (DFin 60) (DFin 1)"
    by (simp_all add: strict_eq_d_def)
  have fv: "FV_d_with pow_d (DFin 1) (DFin 59) (DFin 1) (DFin 1) (DFin 0) = DFin (2 ^ 60)"
    unfolding FV_d_with_def Let_def or_default_d_zero or_default_d_one
    by (simp only: ne if_False one_plus pow_d_two_59 a b c d)
  show ?thesis
    unfolding IPMT_d_def IPMT_d_with_def Let_def or_default_d_zero
    by (simp only: ne if_False pay k fv e)
qed

lemma ppmt_d_absorb:
  "PPMT_d (DFin 1) (DFin 60) (DFin 60) (DFin 1) (DFin 0) (DFin 0) = DFin (- (2 ^ 60))"
proof -
  have "DFin 1 - DFin (2 ^ 60) = DFin (- (2 ^ 60))"
    by (simp add: d_ops rd_eval [of 59])
  then show ?thesis
    using pmt_d_absorb ipmt_d_absorb
    by (simp add: PPMT_d_def PMT_d_def IPMT_d_def PPMT_d_with_eq)
qed

lemma sum_d_absorb:
  "PPMT_d (DFin 1) (DFin 60) (DFin 60) (DFin 1) (DFin 0) (DFin 0)
     + IPMT_d (DFin 1) (DFin 60) (DFin 60) (DFin 1) (DFin 0) (DFin 0) = DFin 0"
  unfolding ppmt_d_absorb ipmt_d_absorb by (simp add: d_ops)

text \<open>
  At rate \<open>2^-60\<close> the sum \<open>1 + rate\<close> rounds to \<open>1\<close>, the power is \<open>1\<close>, and the payment
  is \<open>0 / 0 + 2^-60 / 0\<close>: \<open>NaN\<close>.
\<close>

lemma pmt_d_tiny_rate:
  "PMT_d (DFin (1 / 2 ^ 60)) (DFin 2) (DFin 1) (DFin 0) (DFin 0) = Dbl NaN"
proof -
  have one_plus: "DFin 1 + DFin (1 / 2 ^ 60) = DFin 1"
    by (simp add: d_ops rd_eval [of 0])
  have pw: "pow_d (DFin 1) (DFin 2) = DFin 1"
    by (simp add: pow_d_def js_pow_def real_pow_def integral_def rd_eval [of 0] round_even_def)
  have a: "DFin 0 * DFin (1 / 2 ^ 60) = DFin 0"
    by (simp add: d_ops)
  have b: "DFin 1 - DFin 1 = DFin 0"
    by (simp add: d_ops)
  have c: "DFin 0 / DFin 0 = Dbl NaN"
    by (simp add: d_ops)
  have ne: "\<not> strict_eq_d (DFin (1 / 2 ^ 60)) (DFin 0)" "\<not> strict_eq_d (DFin 0) (DFin 1)"
    by (simp_all add: strict_eq_d_def)
  have nan: "Dbl NaN + x = Dbl NaN" for x
    by (simp add: plus_double_def)
  show ?thesis
    unfolding PMT_d_def PMT_d_with_def Let_def or_default_d_zero
    by (simp only: ne if_False one_plus pw a b c nan)
qed

text \<open>
  The error of \<open>(p - i) + i\<close> with two roundings, against \<open>p\<close>, is relative to the larger
  of \<open>p\<close> and \<open>i\<close>.
\<close>

lemma round_trip_bound:
  fixes a b d s u h :: real
  assumes u: "0 \<le> u" "u \<le> 1 / 2" and h: "0 \<le> h"
    and e1: "\<bar>d - (a - b)\<bar> \<le> \<bar>a - b\<bar> * u + h"
    and e2: "\<bar>s - (d + b)\<bar> \<le> \<bar>d + b\<bar> * u + h"
  shows "\<bar>s - a\<bar> \<le> max \<bar>a\<bar> \<bar>b\<bar> * (4 * u) + 4 * h"
proof -
  define M where "M = max \<bar>a\<bar> \<bar>b\<bar>"
  have M: "\<bar>a\<bar> \<le> M" "\<bar>b\<bar> \<le> M" "0 \<le> M"
    by (simp_all add: M_def)
  have "\<bar>a - b\<bar> \<le> 2 * M"
    using M by linarith
  then have "\<bar>a - b\<bar> * u \<le> 2 * M * u"
    using u(1) by (rule mult_right_mono)
  then have b1: "\<bar>d - (a - b)\<bar> \<le> 2 * (M * u) + h"
    using e1 by simp
  have Mu: "0 \<le> M * u" "M * u \<le> M / 2"
    using M(3) u mult_left_mono [of u "1 / 2" M] by simp_all
  then have "\<bar>d + b\<bar> \<le> 2 * M + h"
    using b1 M by linarith
  then have "\<bar>d + b\<bar> * u \<le> (2 * M + h) * u"
    using u(1) by (rule mult_right_mono)
  moreover have "h * u \<le> h"
    using h u mult_left_mono [of u 1 h] by simp
  ultimately have b2: "\<bar>s - (d + b)\<bar> \<le> 2 * (M * u) + 2 * h"
    using e2 by (simp add: distrib_right)
  have "\<bar>s - a\<bar> \<le> 4 * (M * u) + 4 * h"
    using b1 b2 h by linarith
  then show ?thesis
    by (simp add: M_def mult.commute mult.left_commute)
qed

lemma sum_error:
  assumes "is_finite (js (PPMT_d_with pow r k n v f t + IPMT_d_with pow r k n v f t))"
  shows "PPMT_d_with pow r k n v f t = PMT_d_with pow r n v f t - IPMT_d_with pow r k n v f t
         \<and> \<bar>val (js (PPMT_d_with pow r k n v f t + IPMT_d_with pow r k n v f t))
              - val (js (PMT_d_with pow r n v f t))\<bar>
             \<le> max \<bar>val (js (PMT_d_with pow r n v f t))\<bar> \<bar>val (js (IPMT_d_with pow r k n v f t))\<bar>
                  * (4 * unit_roundoff) + 4 * half_min_step"
proof
  show eq: "PPMT_d_with pow r k n v f t = PMT_d_with pow r n v f t - IPMT_d_with pow r k n v f t"
    by (rule PPMT_d_with_eq)
  define P where "P = js (PMT_d_with pow r n v f t)"
  define I where "I = js (IPMT_d_with pow r k n v f t)"
  define X where "X = round_js (P + (- I))"
  have ppmt: "js (PPMT_d_with pow r k n v f t) = X"
    by (simp add: eq X_def P_def I_def minus_double_def plus_double_def uminus_double_def)
  have sum: "js (PPMT_d_with pow r k n v f t + IPMT_d_with pow r k n v f t) = round_js (X + I)"
    by (simp add: plus_double_def ppmt I_def)
  have fs: "is_finite (round_js (X + I))"
    using assms by (simp add: sum)
  then have XI: "is_finite X" "is_finite I"
    using add_finite [of X I] round_js_finite [of "X + I"] by simp_all
  then have PI: "is_finite P" "is_finite (- I)"
    using add_finite [of P "- I"] round_js_finite [of "P + (- I)"]
    by (simp_all add: X_def neg_finite)
  have v1: "val (P + (- I)) = val P - val I"
    using PI XI(2) fin_add [of P "- I"] fin_neg [of I] by simp
  have v2: "val (X + I) = val X + val I"
    using XI fin_add [of X I] by simp
  have e1: "\<bar>val X - (val P - val I)\<bar> \<le> \<bar>val P - val I\<bar> * unit_roundoff + half_min_step"
    using round_js_error [of "P + (- I)"] XI(1) by (simp add: X_def v1)
  have e2: "\<bar>val (round_js (X + I)) - (val X + val I)\<bar>
              \<le> \<bar>val X + val I\<bar> * unit_roundoff + half_min_step"
    using round_js_error [OF fs] by (simp add: v2)
  show "\<bar>val (js (PPMT_d_with pow r k n v f t + IPMT_d_with pow r k n v f t))
              - val (js (PMT_d_with pow r n v f t))\<bar>
             \<le> max \<bar>val (js (PMT_d_with pow r n v f t))\<bar> \<bar>val (js (IPMT_d_with pow r k n v f t))\<bar>
                  * (4 * unit_roundoff) + 4 * half_min_step"
    unfolding sum P_def [symmetric] I_def [symmetric]
    using unit_roundoff_bounds half_min_step_pos
    by (intro round_trip_bound [OF _ _ _ e1 e2]) simp_all
qed

text \<open>
  For all arguments, \<open>PPMT\<close> is the rounded difference \<open>PMT - IPMT\<close>. When \<open>PMT\<close> and
  \<open>IPMT\<close> return finite numbers of magnitude at most \<open>2^1000\<close>, the sum \<open>PPMT + IPMT\<close>
  is a finite number, and it differs from \<open>PMT\<close> by at most
  \<open>4 * 2^-53 * max(|PMT|, |IPMT|) + 4 * 2^-1075\<close>: a rounding error relative to the
  larger of the payment and the interest, not to the payment alone.
\<close>

lemma ppmt_ipmt_sum_bound:
  assumes P: "is_finite (js (PMT_d_with pow r n v f t))"
      "\<bar>val (js (PMT_d_with pow r n v f t))\<bar> \<le> 2 ^ 1000"
    and I: "is_finite (js (IPMT_d_with pow r k n v f t))"
      "\<bar>val (js (IPMT_d_with pow r k n v f t))\<bar> \<le> 2 ^ 1000"
  shows "PPMT_d_with pow r k n v f t = PMT_d_with pow r n v f t - IPMT_d_with pow r k n v f t
         \<and> is_finite (js (PPMT_d_with pow r k n v f t + IPMT_d_with pow r k n v f t))
         \<and> \<bar>val (js (PPMT_d_with pow r k n v f t + IPMT_d_with pow r k n v f t))
              - val (js (PMT_d_with pow r n v f t))\<bar>
             \<le> max \<bar>val (js (PMT_d_with pow r n v f t))\<bar> \<bar>val (js (IPMT_d_with pow r k n v f t))\<bar>
                  * (4 * unit_roundoff) + 4 * half_min_step"
proof -
  define p where "p = PMT_d_with pow r n v f t"
  define i where "i = IPMT_d_with pow r k n v f t"
  have eq: "PPMT_d_with pow r k n v f t = p - i"
    unfolding p_def i_def by (rule PPMT_d_with_eq)
  define M :: real where "M = 2 ^ 1000"
  define a where "a = val (js p)"
  define b where "b = val (js i)"
  define x where "x = val (js (p - i))"
  have big: "5 * M + 1 \<le> 2 ^ 1023"
    by (simp add: M_def)
  have M: "0 \<le> M"
    by (simp add: M_def)
  have ab: "\<bar>a\<bar> \<le> M" "\<bar>b\<bar> \<le> M"
    using P(2) I(2) by (simp_all add: a_def b_def p_def i_def M_def)
  then have d1: "\<bar>a - b\<bar> \<le> 2 * M"
    by linarith
  then have "\<bar>a - b\<bar> \<le> 2 ^ 1023"
    using big M by linarith
  then have d0: "\<bar>val (js p) - val (js i)\<bar> \<le> 2 ^ 1023"
    by (simp only: a_def b_def)
  have d: "is_finite (js (p - i)) \<and> \<bar>val (js (p - i))\<bar> \<le> 2 * \<bar>val (js p) - val (js i)\<bar> + 1"
    using P(1) I(1) d0 unfolding p_def i_def by (intro d_sub_bounded)
  then have "\<bar>x\<bar> \<le> 2 * \<bar>a - b\<bar> + 1"
    by (simp only: x_def a_def b_def)
  moreover have "2 * \<bar>a - b\<bar> + 1 \<le> 4 * M + 1"
    using d1 by simp
  ultimately have "\<bar>x\<bar> \<le> 4 * M + 1"
    by (rule order_trans)
  moreover have "\<bar>x + b\<bar> \<le> \<bar>x\<bar> + \<bar>b\<bar>"
    by (rule abs_triangle_ineq)
  ultimately have "\<bar>x + b\<bar> \<le> 5 * M + 1"
    using ab(2) by linarith
  then have "\<bar>x + b\<bar> \<le> 2 ^ 1023"
    using big by linarith
  then have "\<bar>val (js (p - i)) + val (js i)\<bar> \<le> 2 ^ 1023"
    by (simp only: x_def b_def)
  then have fs: "is_finite (js (p - i + i))"
    using d I(1) d_add_bounded [of "p - i" i] unfolding i_def by simp
  then have "is_finite (js (PPMT_d_with pow r k n v f t + IPMT_d_with pow r k n v f t))"
    by (simp add: eq i_def)
  from this conjunct2 [OF sum_error [OF this]] PPMT_d_with_eq [of pow r k n v f t]
  show ?thesis
    by simp
qed

text \<open>
  When the interest is at most \<open>2^20\<close> times the payment in magnitude, that error is
  within \<open>1e-9\<close> of the payment, relatively.
\<close>

lemma relative_bound:
  fixes p i e :: real
  assumes e: "e \<le> max \<bar>p\<bar> \<bar>i\<bar> * (4 * unit_roundoff) + 4 * half_min_step"
    and p: "1 / 2 ^ 900 \<le> \<bar>p\<bar>" and i: "\<bar>i\<bar> \<le> 2 ^ 20 * \<bar>p\<bar>"
  shows "e \<le> \<bar>p\<bar> / 10 ^ 9"
proof -
  define w where "w = unit_roundoff * \<bar>p\<bar>"
  have w: "0 \<le> w"
    using unit_roundoff_bounds(1) by (simp add: w_def)
  have "\<bar>p\<bar> \<le> 2 ^ 20 * \<bar>p\<bar>"
    by simp
  then have "max \<bar>p\<bar> \<bar>i\<bar> \<le> 2 ^ 20 * \<bar>p\<bar>"
    using i by simp
  then have "max \<bar>p\<bar> \<bar>i\<bar> * (4 * unit_roundoff) \<le> 2 ^ 20 * \<bar>p\<bar> * (4 * unit_roundoff)"
    using unit_roundoff_bounds(1) by (intro mult_right_mono) simp_all
  also have "\<dots> = 2 ^ 22 * w"
    by (simp add: w_def)
  finally have a: "max \<bar>p\<bar> \<bar>i\<bar> * (4 * unit_roundoff) \<le> 2 ^ 22 * w" .
  have "unit_roundoff * (4 / 2 ^ 1022) \<le> unit_roundoff * \<bar>p\<bar>"
  proof (rule mult_left_mono)
    have "(4::real) / 2 ^ 1022 \<le> 1 / 2 ^ 900"
      by simp
    then show "4 / 2 ^ 1022 \<le> \<bar>p\<bar>"
      using p by (rule order_trans)
    show "0 \<le> unit_roundoff"
      using unit_roundoff_bounds(1) by simp
  qed
  then have b: "4 * half_min_step \<le> w"
    by (simp add: half_min_step_eq w_def)
  have "(2 ^ 22 + 1) * w = \<bar>p\<bar> * ((2 ^ 22 + 1) * unit_roundoff)"
    by (simp add: w_def)
  also have "\<dots> \<le> \<bar>p\<bar> * (1 / 10 ^ 9)"
    by (intro mult_left_mono) (simp_all add: unit_roundoff_def)
  finally have c: "(2 ^ 22 + 1) * w \<le> \<bar>p\<bar> / 10 ^ 9"
    by simp
  have "e \<le> 2 ^ 22 * w + w"
    using e a b by linarith
  also have "\<dots> = (2 ^ 22 + 1) * w"
    by (simp add: distrib_right)
  finally show ?thesis
    using c by linarith
qed

text \<open>
  At rate \<open>1\<close>, the only period and present value \<open>1\<close>: the payment is
  \<open>1 / (1 - 1 / 2) = 2\<close> and the interest is \<open>-1 * 1 = -1\<close>.
\<close>

lemma pmt_d_unit: "PMT_d (DFin 1) (DFin 1) (DFin 1) (DFin 0) (DFin 0) = DFin 2"
proof -
  have ne: "\<not> strict_eq_d (DFin 1) (DFin 0)" "\<not> strict_eq_d (DFin 0) (DFin 1)"
    by (simp_all add: strict_eq_d_def)
  have a: "DFin 1 + DFin 1 = DFin 2" "DFin 2 - DFin 1 = DFin 1" "DFin 1 * DFin 1 = DFin 1"
    "DFin 1 / DFin 2 = DFin (1 / 2)" "DFin 1 - DFin (1 / 2) = DFin (1 / 2)"
    "DFin 1 / DFin (1 / 2) = DFin 2" "DFin 0 + DFin 2 = DFin 2"
    by (simp_all add: d_ops rd_eval [of 1] rd_eval [of 0] rd_eval [of "- 1"])
  have b: "DFin 0 * DFin 1 = DFin 0" "DFin 0 / DFin 1 = DFin 0"
    by (simp_all add: d_ops)
  show ?thesis
    unfolding PMT_d_def PMT_d_with_def Let_def or_default_d_zero
    by (simp only: ne if_False a b pow_d_two_one)
qed

lemma ipmt_d_unit: "IPMT_d (DFin 1) (DFin 1) (DFin 1) (DFin 1) (DFin 0) (DFin 0) = DFin (- 1)"
proof -
  have eq: "strict_eq_d (DFin 1) (DFin 1)" "\<not> strict_eq_d (DFin 0) (DFin 1)"
    by (simp_all add: strict_eq_d_def)
  have a: "- DFin 1 = DFin (- 1)" "DFin (- 1) * DFin 1 = DFin (- 1)"
    by (simp_all add: d_ops rd_eval [of 0])
  show ?thesis
    unfolding IPMT_d_def IPMT_d_with_def Let_def or_default_d_zero
    by (simp only: eq if_True if_False a)
qed

text \<open>
  Claim C3, as amended, in double precision. For every rate, period, periods, present
  value, future value and type for which \<open>PMT\<close> and \<open>IPMT\<close> return finite numbers, with
  \<open>2^-900 \<le> |PMT| \<le> 2^980\<close> and \<open>|IPMT| \<le> 2^20 * |PMT|\<close>: \<open>PPMT\<close> is the rounded
  difference \<open>PMT - IPMT\<close>, and \<open>PPMT + IPMT\<close> is a finite number within \<open>1e-9 * |PMT|\<close>
  of \<open>PMT\<close>. The statement holds for every function in the place of \<open>Math.pow\<close>.
\<close>

theorem ppmt_ipmt_sum:
  assumes P: "is_finite (js (PMT_d_with pow r n v f t))"
      "1 / 2 ^ 900 \<le> \<bar>val (js (PMT_d_with pow r n v f t))\<bar>"
      "\<bar>val (js (PMT_d_with pow r n v f t))\<bar> \<le> 2 ^ 980"
    and I: "is_finite (js (IPMT_d_with pow r k n v f t))"
      "\<bar>val (js (IPMT_d_with pow r k n v f t))\<bar>
         \<le> 2 ^ 20 * \<bar>val (js (PMT_d_with pow r n v f t))\<bar>"
  shows "PPMT_d_with pow r k n v f t = PMT_d_with pow r n v f t - IPMT_d_with pow r k n v f t
         \<and> is_finite (js (PPMT_d_with pow r k n v f t + IPMT_d_with pow r k n v f t))
         \<and> \<bar>val (js (PPMT_d_with pow r k n v f t + IPMT_d_with pow r k n v f t))
              - val (js (PMT_d_with pow r n v f t))\<bar>
             \<le> \<bar>val (js (PMT_d_with pow r n v f t))\<bar> / 10 ^ 9"
proof -
  have "(2::real) ^ 980 \<le> 2 ^ 1000"
    by simp
  with P(3) have pb: "\<bar>val (js (PMT_d_with pow r n v f t))\<bar> \<le> 2 ^ 1000"
    by (rule order_trans)
  have "2 ^ 20 * \<bar>val (js (PMT_d_with pow r n v f t))\<bar> \<le> 2 ^ 20 * 2 ^ 980"
    using P(3) by (intro mult_left_mono) simp_all
  also have "\<dots> = (2::real) ^ 1000"
    by simp
  finally have "2 ^ 20 * \<bar>val (js (PMT_d_with pow r n v f t))\<bar> \<le> 2 ^ 1000" .
  with I(2) have ib: "\<bar>val (js (IPMT_d_with pow r k n v f t))\<bar> \<le> 2 ^ 1000"
    by (rule order_trans)
  note g = ppmt_ipmt_sum_bound [OF P(1) pb I(1) ib]
  note e = relative_bound [OF conjunct2 [OF conjunct2 [OF g]] P(2) I(2)]
  show ?thesis
    using conjunct1 [OF g] conjunct1 [OF conjunct2 [OF g]] e by blast
qed

text \<open>The statement at rate \<open>1\<close>, the only period and present value \<open>1\<close>.\<close>

theorem ppmt_ipmt_sum_witness:
  "is_finite (js (PMT_d (DFin 1) (DFin 1) (DFin 1) (DFin 0) (DFin 0)))
   \<and> 1 / 2 ^ 900 \<le> \<bar>val (js (PMT_d (DFin 1) (DFin 1) (DFin 1) (DFin 0) (DFin 0)))\<bar>
   \<and> \<bar>val (js (PMT_d (DFin 1) (DFin 1) (DFin 1) (DFin 0) (DFin 0)))\<bar> \<le> 2 ^ 980
   \<and> is_finite (js (IPMT_d (DFin 1) (DFin 1) (DFin 1) (DFin 1) (DFin 0) (DFin 0)))
   \<and> \<bar>val (js (IPMT_d (DFin 1) (DFin 1) (DFin 1) (DFin 1) (DFin 0) (DFin 0)))\<bar>
       \<le> 2 ^ 20 * \<bar>val (js (PMT_d (DFin 1) (DFin 1) (DFin 1) (DFin 0) (DFin 0)))\<bar>
   \<and> PPMT_d (DFin 1) (DFin 1) (DFin 1) (DFin 1) (DFin 0) (DFin 0)
        = PMT_d (DFin 1) (DFin 1) (DFin 1) (DFin 0) (DFin 0)
            - IPMT_d (DFin 1) (DFin 1) (DFin 1) (DFin 1) (DFin 0) (DFin 0)
   \<and> is_finite (js (PPMT_d (DFin 1) (DFin 1) (DFin 1) (DFin 1) (DFin 0) (DFin 0)
                      + IPMT_d (DFin 1) (DFin 1) (DFin 1) (DFin 1) (DFin 0) (DFin 0)))
   \<and> \<bar>val (js (PPMT_d (DFin 1) (DFin 1) (DFin 1) (DFin 1) (DFin 0) (DFin 0)
                      + IPMT_d (DFin 1) (DFin 1) (DFin 1) (DFin 1) (DFin 0) (DFin 0)))
        - val (js (PMT_d (DFin 1) (DFin 1) (DFin 1) (DFin 0) (DFin 0)))\<bar>
       \<le> \<bar>val (js (PMT_d (DFin 1) (DFin 1) (DFin 1) (DFin 0) (DFin 0)))\<bar> / 10 ^ 9"
proof -
  have p: "is_finite (js (PMT_d (DFin 1) (DFin 1) (DFin 1) (DFin 0) (DFin 0)))"
    "1 / 2 ^ 900 \<le> \<bar>val (js (PMT_d (DFin 1) (DFin 1) (DFin 1) (DFin 0) (DFin 0)))\<bar>"
    "\<bar>val (js (PMT_d (DFin 1) (DFin 1) (DFin 1) (DFin 0) (DFin 0)))\<bar> \<le> 2 ^ 980"
    by (simp_all add: pmt_d_unit)
  have i: "is_finite (js (IPMT_d (DFin 1) (DFin 1) (DFin 1) (DFin 1) (DFin 0) (DFin 0)))"
    "\<bar>val (js (IPMT_d (DFin 1) (DFin 1) (DFin 1) (DFin 1) (DFin 0) (DFin 0)))\<bar>
       \<le> 2 ^ 20 * \<bar>val (js (PMT_d (DFin 1) (DFin 1) (DFin 1) (DFin 0) (DFin 0)))\<bar>"
    by (simp_all add: pmt_d_unit ipmt_d_unit)
  show ?thesis
    using p i
      ppmt_ipmt_sum [of pow_d "DFin 1" "DFin 1" "DFin 1" "DFin 0" "DFin 0" "DFin 1",
        folded PMT_d_def IPMT_d_def PPMT_d_def, OF p i]
    by blast
qed

text \<open>
  The claim as written fails at rate \<open>1\<close>, the last of \<open>60\<close> periods and present value
  \<open>1\<close>, inside its domain: the payment is \<open>1\<close>, the interest is \<open>2^60\<close>, and
  \<open>PPMT + IPMT\<close> is \<open>-2^60 + 2^60 = 0\<close>, not within \<open>1e-9\<close> of the payment.
\<close>

theorem ppmt_ipmt_sum_absorbed:
  "PMT_d (DFin 1) (DFin 60) (DFin 1) (DFin 0) (DFin 0) = DFin 1
   \<and> IPMT_d (DFin 1) (DFin 60) (DFin 60) (DFin 1) (DFin 0) (DFin 0) = DFin (2 ^ 60)
   \<and> PPMT_d (DFin 1) (DFin 60) (DFin 60) (DFin 1) (DFin 0) (DFin 0) = DFin (- (2 ^ 60))
   \<and> PPMT_d (DFin 1) (DFin 60) (DFin 60) (DFin 1) (DFin 0) (DFin 0)
       + IPMT_d (DFin 1) (DFin 60) (DFin 60) (DFin 1) (DFin 0) (DFin 0) = DFin 0
   \<and> \<not> approx (js (PPMT_d (DFin 1) (DFin 60) (DFin 60) (DFin 1) (DFin 0) (DFin 0)
                     + IPMT_d (DFin 1) (DFin 60) (DFin 60) (DFin 1) (DFin 0) (DFin 0)))
               (val (js (PMT_d (DFin 1) (DFin 60) (DFin 1) (DFin 0) (DFin 0)))) (1 / 10 ^ 9)"
proof -
  have s: "DFin (- (2 ^ 60)) + DFin (2 ^ 60) = DFin 0"
    by (simp add: d_ops)
  show ?thesis
    unfolding pmt_d_absorb ipmt_d_absorb ppmt_d_absorb s by (simp add: approx_def)
qed

section \<open>Interest of the first payment of an annuity due\<close>

text \<open>
  Claim C4. For every finite rate (a real, or the negative zero), and whatever the
  periods, the present value and the future value are, \<open>IPMT\<close> with \<open>period = 1\<close> and
  \<open>type = 1\<close> returns a zero: the interest base is \<open>0\<close>, and \<open>0 * rate\<close> is \<open>+0\<close> or \<open>-0\<close>,
  both \<open>=== 0\<close>. The payment that \<open>IPMT\<close> computes first is not used on this path.
\<close>

theorem ipmt_first_period_due:
  "strict_eq (IPMT (Fin rate) (Fin 1) periods present_value future_value (Fin 1)) (Fin 0)
   \<and> strict_eq (IPMT NegZero (Fin 1) periods present_value future_value (Fin 1)) (Fin 0)"
  by (simp add: IPMT_def IPMT_with_def or_default_def Let_def times_jsval_def zero_of_def)

section \<open>The rate -1\<close>

text \<open>
  Claim C5, as amended. With rate \<open>-1\<close> the base of the power is \<open>1 + rate = 0\<close>. For
  negative periods \<open>Math.pow(0, periods)\<close> is \<open>Infinity\<close> and \<open>FV\<close> returns a number that
  is not finite (an infinity or \<open>NaN\<close>), whatever the payment, the present value and the
  type are. For positive periods the power is \<open>0\<close> and \<open>FV\<close> of a finite payment and a
  finite present value is finite: the division by the rate is a division by \<open>-1\<close>, never
  by zero.
\<close>

theorem fv_rate_minus_one:
  assumes "n < 0" and "0 < m"
  shows "non_finite (FV (Fin (- 1)) (Fin n) payment present type)
         \<and> is_finite (FV (Fin (- 1)) (Fin m) (Fin p) (Fin v) type)"
proof
  have base: "Fin 1 + Fin (- 1) = Fin 0"
    by simp
  have "js_pow (Fin 0) (Fin n) = PInf"
    using assms(1) by (simp add: js_pow_def Let_def)
  then show "non_finite (FV (Fin (- 1)) (Fin n) payment present type)"
    by (simp add: FV_def FV_with_def Let_def non_finite_mul_PInf non_finite_add_left)
  have pw: "js_pow (Fin 0) (Fin m) = Fin 0"
    using assms(2) by (simp add: js_pow_def Let_def)
  have v': "is_finite (or_default (Fin v) (Fin 0))"
    using fin_or_default [of "Fin v"] by simp
  have t1: "is_finite (or_default (Fin v) (Fin 0) * Fin 0)"
    using fin_mul [OF v', of "Fin 0"] by simp
  have m1: "Fin 0 - Fin 1 = Fin (- 1)"
    by (simp add: minus_jsval_def)
  have a: "is_finite (Fin p * Fin (- 1) / Fin (- 1))"
    using fin_mul [of "Fin p" "Fin (- 1)"] fin_div [of "Fin p * Fin (- 1)" "Fin (- 1)"] by simp
  have "is_finite (Fin p * Fin 0)"
    using fin_mul [of "Fin p" "Fin 0"] by simp
  then have "is_finite (Fin p * Fin 0 * Fin (- 1))"
    using fin_mul [of "Fin p * Fin 0" "Fin (- 1)"] by simp
  then have b: "is_finite (Fin p * Fin 0 * Fin (- 1) / Fin (- 1))"
    using fin_div [of "Fin p * Fin 0 * Fin (- 1)" "Fin (- 1)"] by simp
  show "is_finite (FV (Fin (- 1)) (Fin m) (Fin p) (Fin v) type)"
    using fin_add [OF t1 a] fin_add [OF t1 b]
    by (simp add: FV_def FV_with_def Let_def pw m1)
qed

text \<open>The statement at \<open>-1\<close> and \<open>1\<close> periods.\<close>

theorem fv_rate_minus_one_witness:
  "(- 1 :: real) < 0 \<and> (0 :: real) < 1
   \<and> non_finite (FV (Fin (- 1)) (Fin (- 1)) (Fin 5) (Fin 0) (Fin 0))
   \<and> is_finite (FV (Fin (- 1)) (Fin 1) (Fin 5) (Fin 0) (Fin 0))"
  using fv_rate_minus_one [where n = "- 1" and m = 1 and payment = "Fin 5" and present = "Fin 0"
      and type = "Fin 0" and p = 5 and v = 0]
  by simp

text \<open>
  The claim as written fails at rate \<open>-1\<close> and one period: \<open>FV(-1, 1, 5, 0, 0)\<close> is
  \<open>0 * 0 + 5 * (0 - 1) / -1\<close>, the finite number \<open>5\<close>.
\<close>

theorem fv_rate_minus_one_finite:
  "FV (Fin (- 1)) (Fin 1) (Fin 5) (Fin 0) (Fin 0) = Fin 5
   \<and> \<not> non_finite (FV (Fin (- 1)) (Fin 1) (Fin 5) (Fin 0) (Fin 0))"
proof -
  have pw: "js_pow (Fin 0) (Fin 1) = Fin 0"
    by (simp add: js_pow_def Let_def)
  have "FV (Fin (- 1)) (Fin 1) (Fin 5) (Fin 0) (Fin 0) = Fin 5"
    by (simp add: FV_def FV_with_def Let_def pw or_default_def minus_jsval_def
          times_jsval_def divide_jsval_def zero_of_def sign_xor_def)
  then show ?thesis by simp
qed

section \<open>An omitted payment\<close>

text \<open>
  Claim C6. \<open>FV\<close> gives \<open>fv_present_value\<close> and \<open>fv_type\<close> the default \<open>0\<close> and gives
  \<open>fv_payments\<close> none: \<open>FV(0, 5)\<close> multiplies \<open>undefined\<close> by the periods and returns
  \<open>NaN\<close>, where \<open>FV(0, 5, 0)\<close> returns \<open>0\<close>.
\<close>

theorem fv_omitted_payment:
  "FV (Fin 0) (Fin 5) Undefined Undefined Undefined = NaN
   \<and> FV (Fin 0) (Fin 5) (Fin 0) Undefined Undefined = Fin 0"
  by (simp add: FV_def FV_with_def or_default_def times_jsval_def zero_of_def sign_xor_def)

section \<open>Zero-rate degeneration\<close>

text \<open>
  Claim C7. With rate \<open>0\<close> each of \<open>FV\<close>, \<open>PV\<close> and \<open>PMT\<close> returns the value of its linear
  formula, for all other arguments: \<open>FV\<close> returns \<open>present_value + payment * periods\<close>,
  \<open>PV\<close> returns \<open>-payment * periods - future_value\<close> and \<open>PMT\<close> returns
  \<open>(present_value + future_value) / periods\<close>, where \<open>present_value\<close> and
  \<open>future_value\<close> are the arguments after \<open>|| 0\<close>. The statement holds for every function
  \<open>pow\<close> put in the place of \<open>Math.pow\<close>: the branch calls no exponentiation. The last
  three conjuncts read the formulas on finite numbers \<open>n\<close>, \<open>p\<close>, \<open>v\<close>, \<open>f\<close>: the results
  are the real \<open>v + p * n\<close>, a number \<open>===\<close> to the real \<open>- p * n - f\<close> (it is \<open>-0\<close> when
  payment and future value are \<open>0\<close>), and the JavaScript quotient of \<open>v + f\<close> by \<open>n\<close>.
\<close>

theorem zero_rate_linear:
  "FV_with pow (Fin 0) periods payment present_value type
     = or_default present_value (Fin 0) + payment * periods
   \<and> PV_with pow (Fin 0) periods payment future_value type
     = (- payment) * periods - or_default future_value (Fin 0)
   \<and> PMT_with pow (Fin 0) periods present_value future_value type
     = (present_value + or_default future_value (Fin 0)) / periods
   \<and> FV_with pow (Fin 0) (Fin n) (Fin p) (Fin v) type = Fin (v + p * n)
   \<and> strict_eq (PV_with pow (Fin 0) (Fin n) (Fin p) (Fin f) type) (Fin (- p * n - f))
   \<and> PMT_with pow (Fin 0) (Fin n) (Fin v) (Fin f) type = Fin (v + f) / Fin n"
proof (intro conjI)
  show "FV_with pow (Fin 0) periods payment present_value type
     = or_default present_value (Fin 0) + payment * periods"
    by (simp add: FV_with_def)
  show "PV_with pow (Fin 0) periods payment future_value type
     = (- payment) * periods - or_default future_value (Fin 0)"
    by (simp add: PV_with_def)
  show "PMT_with pow (Fin 0) periods present_value future_value type
     = (present_value + or_default future_value (Fin 0)) / periods"
    by (simp add: PMT_with_def)
  have pn: "is_finite (Fin p * Fin n) \<and> val (Fin p * Fin n) = p * n"
    using fin_mul [of "Fin p" "Fin n"] by simp
  then show "FV_with pow (Fin 0) (Fin n) (Fin p) (Fin v) type = Fin (v + p * n)"
    by (cases "Fin p * Fin n") (simp_all add: FV_with_def or_default_def)
  have a: "is_finite (- Fin p) \<and> val (- Fin p) = - p"
    using fin_neg [of "Fin p"] by simp
  have b: "is_finite (- Fin p * Fin n) \<and> val (- Fin p * Fin n) = - p * n"
    using fin_mul [of "- Fin p" "Fin n"] a by simp
  have c: "is_finite (- Fin p * Fin n - Fin f) \<and> val (- Fin p * Fin n - Fin f) = - p * n - f"
    using fin_sub [of "- Fin p * Fin n" "Fin f"] b by simp
  have "or_default (Fin f) (Fin 0) = Fin f"
    by (simp add: or_default_def)
  then show "strict_eq (PV_with pow (Fin 0) (Fin n) (Fin p) (Fin f) type) (Fin (- p * n - f))"
    using c by (simp add: PV_with_def strict_eq_finite)
  show "PMT_with pow (Fin 0) (Fin n) (Fin v) (Fin f) type = Fin (v + f) / Fin n"
    by (simp add: PMT_with_def or_default_def)
qed

section \<open>Interest of the later periods\<close>

text \<open>
  Claim C8. For every period \<open>p > 1\<close> and all other arguments, \<open>IPMT\<close> is the rate times
  the interest base: with \<open>payment = PMT(rate, periods, pv, fv, type)\<close>, the base is
  \<open>FV(rate, p - 2, payment, pv, 1) - payment\<close> when \<open>type\<close> is \<open>1\<close>, and
  \<open>FV(rate, p - 1, payment, pv, 0)\<close> when \<open>type\<close> is \<open>0\<close>.
\<close>

theorem ipmt_later_periods:
  assumes "1 < p"
  shows "IPMT rate (Fin p) periods pv fv (Fin 1)
           = rate * (FV rate (Fin (p - 2)) (PMT rate periods pv fv (Fin 1)) pv (Fin 1)
                       - PMT rate periods pv fv (Fin 1))
         \<and> IPMT rate (Fin p) periods pv fv (Fin 0)
           = rate * FV rate (Fin (p - 1)) (PMT rate periods pv fv (Fin 0)) pv (Fin 0)"
proof
  have one: "or_default (Fin 1) (Fin 0) = Fin 1" and zero: "or_default (Fin 0) (Fin 0) = Fin 0"
    by (simp_all add: or_default_def)
  have not_first: "\<not> strict_eq (Fin p) (Fin 1)"
    using assms by simp
  have pay1: "PMT_with js_pow rate periods pv (or_default fv (Fin 0)) (Fin 1)
                = PMT rate periods pv fv (Fin 1)"
    using PMT_with_default [of js_pow rate periods pv fv "Fin 1"] by (simp add: one PMT_def)
  have pay0: "PMT_with js_pow rate periods pv (or_default fv (Fin 0)) (Fin 0)
                = PMT rate periods pv fv (Fin 0)"
    using PMT_with_default [of js_pow rate periods pv fv "Fin 0"] by (simp add: zero PMT_def)
  have "IPMT rate (Fin p) periods pv fv (Fin 1)
          = (FV rate (Fin p - Fin 2) (PMT rate periods pv fv (Fin 1)) pv (Fin 1)
               - PMT rate periods pv fv (Fin 1)) * rate"
    using not_first by (simp add: IPMT_def IPMT_with_def Let_def one pay1 FV_def)
  then show "IPMT rate (Fin p) periods pv fv (Fin 1)
           = rate * (FV rate (Fin (p - 2)) (PMT rate periods pv fv (Fin 1)) pv (Fin 1)
                       - PMT rate periods pv fv (Fin 1))"
    by (simp add: sub_Fin mul_commute)
  have "IPMT rate (Fin p) periods pv fv (Fin 0)
          = FV rate (Fin p - Fin 1) (PMT rate periods pv fv (Fin 0)) pv (Fin 0) * rate"
    using not_first by (simp add: IPMT_def IPMT_with_def Let_def zero pay0 FV_def)
  then show "IPMT rate (Fin p) periods pv fv (Fin 0)
           = rate * FV rate (Fin (p - 1)) (PMT rate periods pv fv (Fin 0)) pv (Fin 0)"
    by (simp add: sub_Fin mul_commute)
qed

text \<open>The statement at period \<open>2\<close> of a loan of \<open>100\<close> over two periods at rate \<open>1/10\<close>.\<close>

theorem ipmt_later_periods_witness:
  "(1 :: real) < 2
   \<and> IPMT (Fin (1 / 10)) (Fin 2) (Fin 2) (Fin 100) (Fin 0) (Fin 1)
       = Fin (1 / 10) * (FV (Fin (1 / 10)) (Fin (2 - 2))
                            (PMT (Fin (1 / 10)) (Fin 2) (Fin 100) (Fin 0) (Fin 1)) (Fin 100) (Fin 1)
                          - PMT (Fin (1 / 10)) (Fin 2) (Fin 100) (Fin 0) (Fin 1))
   \<and> IPMT (Fin (1 / 10)) (Fin 2) (Fin 2) (Fin 100) (Fin 0) (Fin 0)
       = Fin (1 / 10) * FV (Fin (1 / 10)) (Fin (2 - 1))
                           (PMT (Fin (1 / 10)) (Fin 2) (Fin 100) (Fin 0) (Fin 0)) (Fin 100) (Fin 0)"
  using ipmt_later_periods [where p = 2 and rate = "Fin (1 / 10)" and periods = "Fin 2"
      and pv = "Fin 100" and fv = "Fin 0"]
  by simp

section \<open>A type flag other than 0 and 1\<close>

text \<open>
  Claim C9. For every type value \<open>t\<close> other than \<open>1\<close> (so for every \<open>t\<close> that is neither
  falsy nor \<open>1\<close>, such as \<open>2\<close>, and for the falsy ones, which \<open>|| 0\<close> replaces by \<open>0\<close>),
  \<open>FV\<close>, \<open>PMT\<close> and \<open>IPMT\<close> return the very result they return with type \<open>0\<close>: their
  branches test \<open>=== 1\<close>. \<open>PV\<close> multiplies by \<open>1 + rate * type\<close>, and its result with type
  \<open>2\<close> differs from its results with types \<open>0\<close> and \<open>1\<close>: at rate \<open>1\<close>, one period,
  payment \<open>1\<close> and future value \<open>0\<close> it returns \<open>3/2\<close> with type \<open>2\<close>, \<open>1/2\<close> with type
  \<open>0\<close> and \<open>1\<close> with type \<open>1\<close> (doubles compute the three values exactly).
\<close>

theorem type_other_than_one:
  assumes "t \<noteq> Fin 1"
  shows "FV rate periods payment pv t = FV rate periods payment pv (Fin 0)
         \<and> PMT rate periods pv fv t = PMT rate periods pv fv (Fin 0)
         \<and> IPMT rate period periods pv fv t = IPMT rate period periods pv fv (Fin 0)
         \<and> PV (Fin 1) (Fin 1) (Fin 1) (Fin 0) (Fin 2) = Fin (3 / 2)
         \<and> PV (Fin 1) (Fin 1) (Fin 1) (Fin 0) (Fin 0) = Fin (1 / 2)
         \<and> PV (Fin 1) (Fin 1) (Fin 1) (Fin 0) (Fin 1) = Fin 1"
proof (intro conjI)
  show "FV rate periods payment pv t = FV rate periods payment pv (Fin 0)"
    by (simp only: FV_def FV_with_not_one [OF assms])
  show "PMT rate periods pv fv t = PMT rate periods pv fv (Fin 0)"
    by (simp only: PMT_def PMT_with_not_one [OF assms])
  show "IPMT rate period periods pv fv t = IPMT rate period periods pv fv (Fin 0)"
    by (simp only: IPMT_def IPMT_with_not_one [OF assms])
  have pw: "js_pow (Fin 2) (Fin 1) = Fin 2"
    by (simp add: js_pow_def real_pow_def integral_def)
  show "PV (Fin 1) (Fin 1) (Fin 1) (Fin 0) (Fin 2) = Fin (3 / 2)"
    by (simp add: PV_def PV_with_def or_default_def pw minus_jsval_def
                  times_jsval_def divide_jsval_def)
  show "PV (Fin 1) (Fin 1) (Fin 1) (Fin 0) (Fin 0) = Fin (1 / 2)"
    by (simp add: PV_def PV_with_def or_default_def pw minus_jsval_def
                  times_jsval_def divide_jsval_def zero_of_def sign_xor_def)
  show "PV (Fin 1) (Fin 1) (Fin 1) (Fin 0) (Fin 1) = Fin 1"
    by (simp add: PV_def PV_with_def or_default_def pw minus_jsval_def
                  times_jsval_def divide_jsval_def)
qed

text \<open>The statement at \<open>t = 2\<close>.\<close>

theorem type_other_than_one_witness:
  "Fin 2 \<noteq> Fin 1
   \<and> FV (Fin 1) (Fin 1) (Fin 1) (Fin 1) (Fin 2) = FV (Fin 1) (Fin 1) (Fin 1) (Fin 1) (Fin 0)
   \<and> PMT (Fin 1) (Fin 1) (Fin 1) (Fin 0) (Fin 2) = PMT (Fin 1) (Fin 1) (Fin 1) (Fin 0) (Fin 0)
   \<and> IPMT (Fin 1) (Fin 1) (Fin 1) (Fin 1) (Fin 0) (Fin 2)
       = IPMT (Fin 1) (Fin 1) (Fin 1) (Fin 1) (Fin 0) (Fin 0)"
  using type_other_than_one [where t = "Fin 2" and rate = "Fin 1" and periods = "Fin 1"
      and payment = "Fin 1" and pv = "Fin 1" and fv = "Fin 0" and period = "Fin 1"]
  by simp

section \<open>A payment over zero periods\<close>

text \<open>The same in double precision: a division by a zero is not rounded.\<close>

lemma round_js_non_finite: "non_finite y \<Longrightarrow> round_js y = y"
  by (cases y) simp_all

lemma d_div_zero: "is_zero (js d) \<Longrightarrow> non_finite (js (x / d))"
  by (simp add: divide_double_def non_finite_div_zero round_js_non_finite)

lemma d_div_non_finite: "non_finite (js a) \<Longrightarrow> non_finite (js (a / d))"
  by (simp add: divide_double_def non_finite_div round_js_non_finite)

lemma d_add_non_finite: "non_finite (js a) \<Longrightarrow> non_finite (js (a + b))"
  by (simp add: plus_double_def non_finite_add_left round_js_non_finite)

lemma pow_d_zero_exponent: "is_zero (js e) \<Longrightarrow> pow_d b e = DFin 1"
  by (simp add: pow_d_def js_pow_zero_exponent rd_eval [of 0] round_even_def)

lemma PMT_d_zero_periods:
  assumes "is_zero (js periods)"
  shows "non_finite (js (PMT_d_with pow_d rate periods present future type))"
proof (cases "strict_eq_d rate (DFin 0)")
  case True
  then show ?thesis
    using assms by (simp add: PMT_d_with_def Let_def d_div_zero)
next
  case False
  have tm: "pow_d (DFin 1 + rate) periods = DFin 1"
    using assms by (rule pow_d_zero_exponent)
  have d1: "DFin 1 - DFin 1 = DFin 0"
    by (simp add: d_ops)
  have d2: "DFin 1 - DFin 1 / DFin 1 = DFin 0"
    by (simp add: d_ops rd_eval [of 0])
  have "non_finite (js (x / (DFin 1 - DFin 1) + y / (DFin 1 - DFin 1 / DFin 1)))" for x y :: double
    by (simp add: d1 d2 d_div_zero d_add_non_finite)
  then show ?thesis
    using False by (simp add: PMT_d_with_def Let_def tm d_div_non_finite)
qed

text \<open>
  Claim C10. \<open>PMT\<close> with \<open>periods = 0\<close> raises nothing and returns \<open>Infinity\<close>,
  \<open>-Infinity\<close> or \<open>NaN\<close>, for every rate, present value, future value and type (and for
  the negative zero as periods), with exact and with rounded arithmetic. The first
  conjunct is the value it returns. With rate \<open>0\<close> it is \<open>present_value + future_value\<close>
  divided by zero. Otherwise the term \<open>Math.pow(1 + rate, 0)\<close> is \<open>1\<close>, both denominators
  \<open>term - 1\<close> and \<open>1 - 1 / term\<close> are \<open>0\<close>, and the value is the sum of two divisions by
  zero, divided by \<open>1 + rate\<close> when the type is \<open>1\<close>. The model has no error value: every
  operator of the function is total on numbers, as it is in the language.
\<close>

theorem pmt_zero_periods:
  "PMT rate (Fin 0) present future type
     = (if strict_eq rate (Fin 0) then (present + or_default future (Fin 0)) / Fin 0
        else if strict_eq (or_default type (Fin 0)) (Fin 1)
        then (or_default future (Fin 0) * rate / Fin 0 + present * rate / Fin 0)
               / (Fin 1 + rate)
        else or_default future (Fin 0) * rate / Fin 0 + present * rate / Fin 0)
   \<and> non_finite (PMT rate (Fin 0) present future type)
   \<and> non_finite (PMT rate NegZero present future type)
   \<and> non_finite (js (PMT_d r (DFin 0) v f t))
   \<and> non_finite (js (PMT_d r (Dbl NegZero) v f t))"
proof (intro conjI)
  have tm: "js_pow (Fin 1 + rate) (Fin 0) = Fin 1"
    by (simp add: js_pow_zero_exponent)
  have d1: "Fin 1 - Fin 1 = Fin 0" and d2: "Fin 1 - Fin 1 / Fin 1 = Fin 0"
    by (simp_all add: minus_jsval_def divide_jsval_def)
  show "PMT rate (Fin 0) present future type
     = (if strict_eq rate (Fin 0) then (present + or_default future (Fin 0)) / Fin 0
        else if strict_eq (or_default type (Fin 0)) (Fin 1)
        then (or_default future (Fin 0) * rate / Fin 0 + present * rate / Fin 0)
               / (Fin 1 + rate)
        else or_default future (Fin 0) * rate / Fin 0 + present * rate / Fin 0)"
    by (simp add: PMT_def PMT_with_def Let_def tm d1 d2)
  show "non_finite (PMT rate (Fin 0) present future type)"
    by (simp add: PMT_def PMT_zero_periods)
  show "non_finite (PMT rate NegZero present future type)"
    by (simp add: PMT_def PMT_zero_periods)
  show "non_finite (js (PMT_d r (DFin 0) v f t))"
    by (simp add: PMT_d_def PMT_d_zero_periods)
  show "non_finite (js (PMT_d r (Dbl NegZero) v f t))"
    by (simp add: PMT_d_def PMT_d_zero_periods)
qed

end
